theory Spec2Isabelle
  imports Complex_Main "HOL-Library.Monad_Syntax"
begin

section \<open>Data model\<close>

text \<open>
  Every chart function receives a pandas DataFrame and column names. A cell is a float;
  \<open>None\<close> stands for NaN (a missing value). A DataFrame is the ordered list of its named
  columns, of distinct names and one length, over the default row index
  \<open>0, 1, \<dots>, n - 1\<close>; \<open>df[name]\<close> is \<open>map_of df name\<close> and raises \<open>KeyError\<close> where
  the name is absent.

  Python exceptions are the left summand of the result. Float operations of numpy and pandas
  that leave the finite numbers (division by zero, the root of a negative number, the mean of
  nothing) raise nothing: they give NaN or an infinity and the call goes on. Such a value is
  \<open>None\<close> inside the result; every other number is an exact real.
\<close>

datatype error =
    ValueError string
  | KeyError string
  | ZeroDivisionError
  | IndexError
  | NameError string

type_synonym cell = "real option"
type_synonym column = "cell list"
type_synonym dataframe = "(string \<times> column) list"

definition nrows :: "dataframe \<Rightarrow> nat" where
  "nrows df = (case df of [] \<Rightarrow> 0 | (name, xs) # rest \<Rightarrow> length xs)"

definition df_size :: "dataframe \<Rightarrow> nat" where
  \<comment> \<open>\<open>DataFrame.size\<close>: the number of cells, rows times columns\<close>
  "df_size df = nrows df * length df"

fun dropna :: "column \<Rightarrow> real list" where
  "dropna [] = []"
| "dropna (None # cs) = dropna cs"
| "dropna (Some x # cs) = x # dropna cs"

definition fl_div :: "real \<Rightarrow> real \<Rightarrow> real option" where
  \<comment> \<open>float division in numpy and pandas: a zero divisor gives NaN or an infinity\<close>
  "fl_div a b = (if b = 0 then None else Some (a / b))"

definition np_sqrt :: "real \<Rightarrow> real option" where
  \<comment> \<open>\<open>np.sqrt\<close>: NaN below zero\<close>
  "np_sqrt x = (if x < 0 then None else Some (sqrt x))"

definition pd_mean :: "real list \<Rightarrow> real option" where
  \<comment> \<open>\<open>Series.mean\<close>: NaN for the empty series\<close>
  "pd_mean xs = fl_div (sum_list xs) (real (length xs))"

definition np_mean :: "real list \<Rightarrow> real" where
  \<comment> \<open>\<open>np.mean\<close>, used by the source on non-empty arrays only\<close>
  "np_mean xs = sum_list xs / real (length xs)"

definition py_lt :: "cell \<Rightarrow> real \<Rightarrow> bool" where
  \<comment> \<open>\<open>x < bound\<close>: every comparison with NaN is False\<close>
  "py_lt x bound = (case x of None \<Rightarrow> False | Some v \<Rightarrow> v < bound)"

definition py_gt :: "cell \<Rightarrow> real \<Rightarrow> bool" where
  "py_gt x bound = (case x of None \<Rightarrow> False | Some v \<Rightarrow> v > bound)"

record control_limits =
  LCL :: real
  CL :: real
  UCL :: real

definition limits_in_order :: "control_limits \<Rightarrow> bool" where
  "limits_in_order l \<longleftrightarrow> 0 \<le> LCL l \<and> LCL l \<le> CL l \<and> CL l \<le> UCL l"

section \<open>c-chart (src/spc/c\_chart.py)\<close>

definition c_chart_count_defects :: "real option \<Rightarrow> real option \<Rightarrow> cell \<Rightarrow> nat" where
  "c_chart_count_defects lower_spec upper_spec x =
     (let defect_count = 0;
          defect_count = (case lower_spec of None \<Rightarrow> defect_count
                          | Some l \<Rightarrow> if py_lt x l then defect_count + 1 else defect_count);
          defect_count = (case upper_spec of None \<Rightarrow> defect_count
                          | Some u \<Rightarrow> if py_gt x u then defect_count + 1 else defect_count)
      in defect_count)"

definition c_chart_limits :: "nat list \<Rightarrow> control_limits option" where
  "c_chart_limits defect_count = do {
     c_bar \<leftarrow> pd_mean (map real defect_count);
     root \<leftarrow> np_sqrt c_bar;
     Some \<lparr>LCL = max 0 (c_bar - 3 * root), CL = c_bar, UCL = c_bar + 3 * root\<rparr>
   }"

record c_chart =
  c_defect_count :: "nat list"
  c_limits :: "control_limits option"

definition plot_c_chart ::
  "dataframe \<Rightarrow> string \<Rightarrow> real option \<Rightarrow> real option \<Rightarrow> error + c_chart" where
  "plot_c_chart df column lower_spec upper_spec =
     (if lower_spec = None \<and> upper_spec = None
      then Inl (ValueError ''You must define at least one specification limit.'')
      else case map_of df column of
        None \<Rightarrow> Inl (KeyError column)
      | Some xs \<Rightarrow>
          let defect_count = map (c_chart_count_defects lower_spec upper_spec) xs
          in Inr \<lparr>c_defect_count = defect_count, c_limits = c_chart_limits defect_count\<rparr>)"

section \<open>np-chart and p-chart (src/spc/np\_chart.py, src/spc/p\_chart.py)\<close>

text \<open>
  \<open>df.index // subgroup_size\<close> labels row \<open>i\<close> with the floor quotient, and
  \<open>groupby\<close> collects the rows of each label, labels ascending. For a zero
  \<open>subgroup_size\<close> pandas divides without raising: row 0 gets the label NaN, which
  \<open>groupby\<close> drops, and every later row the one label \<open>inf\<close>.
\<close>

definition subgroups :: "int \<Rightarrow> 'a list \<Rightarrow> 'a list list" where
  "subgroups subgroup_size vals =
     (if subgroup_size = 0 then (if length vals \<le> 1 then [] else [tl vals])
      else let labels = map (\<lambda>i. int i div subgroup_size) [0..<length vals]
           in map (\<lambda>k. map snd (filter (\<lambda>(k', v). k' = k) (zip labels vals)))
                (sort (remdups labels)))"

definition np_chart_is_defective :: "real option \<Rightarrow> real option \<Rightarrow> cell \<Rightarrow> nat" where
  "np_chart_is_defective lower_spec upper_spec x =
     (if (case lower_spec of None \<Rightarrow> False | Some l \<Rightarrow> py_lt x l) then 1
      else if (case upper_spec of None \<Rightarrow> False | Some u \<Rightarrow> py_gt x u) then 1
      else 0)"

definition np_chart_limits :: "int \<Rightarrow> nat list \<Rightarrow> control_limits option" where
  "np_chart_limits subgroup_size np_values = do {
     np_bar \<leftarrow> pd_mean (map real np_values);
     p_bar \<leftarrow> fl_div np_bar (real_of_int subgroup_size);
     q \<leftarrow> fl_div (p_bar * (1 - p_bar)) (real_of_int subgroup_size);
     root \<leftarrow> np_sqrt q;
     Some \<lparr>LCL = max 0 (real_of_int subgroup_size * (p_bar - 3 * root)),
           CL = np_bar,
           UCL = real_of_int subgroup_size * (p_bar + 3 * root)\<rparr>
   }"

record np_chart =
  np_values :: "nat list"
  np_limits :: "control_limits option"

definition plot_np_chart ::
  "dataframe \<Rightarrow> string \<Rightarrow> int \<Rightarrow> real option \<Rightarrow> real option \<Rightarrow> error + np_chart" where
  "plot_np_chart df column subgroup_size lower_spec upper_spec =
     (if lower_spec = None \<and> upper_spec = None
      then Inl (ValueError ''At least one of lower_spec or upper_spec must be specified.'')
      else case map_of df column of
        None \<Rightarrow> Inl (KeyError column)
      | Some xs \<Rightarrow>
          let defective = map (np_chart_is_defective lower_spec upper_spec) xs;
              grouped = subgroups subgroup_size defective;
              np_values = map sum_list grouped
          in Inr \<lparr>np_values = np_values, np_limits = np_chart_limits subgroup_size np_values\<rparr>)"

definition p_chart_is_defective :: "real option \<Rightarrow> real option \<Rightarrow> cell \<Rightarrow> nat" where
  "p_chart_is_defective lower_spec upper_spec x =
     (if (case lower_spec of None \<Rightarrow> False | Some l \<Rightarrow> py_lt x l) then 1
      else if (case upper_spec of None \<Rightarrow> False | Some u \<Rightarrow> py_gt x u) then 1
      else 0)"

definition p_chart_limits :: "int \<Rightarrow> real list \<Rightarrow> control_limits option" where
  "p_chart_limits subgroup_size p = do {
     p_bar \<leftarrow> pd_mean p;
     q \<leftarrow> fl_div (p_bar * (1 - p_bar)) (real_of_int subgroup_size);
     root \<leftarrow> np_sqrt q;
     Some \<lparr>LCL = max 0 (p_bar - 3 * root), CL = p_bar, UCL = p_bar + 3 * root\<rparr>
   }"

record p_chart =
  p_values :: "real list"
  p_limits :: "control_limits option"

definition plot_p_chart ::
  "dataframe \<Rightarrow> string \<Rightarrow> int \<Rightarrow> real option \<Rightarrow> real option \<Rightarrow> error + p_chart" where
  "plot_p_chart df column subgroup_size lower_spec upper_spec =
     (if lower_spec = None \<and> upper_spec = None
      then Inl (ValueError ''At least one of lower_spec or upper_spec must be defined.'')
      else case map_of df column of
        None \<Rightarrow> Inl (KeyError column)
      | Some xs \<Rightarrow>
          let defective = map (p_chart_is_defective lower_spec upper_spec) xs;
              grouped = subgroups subgroup_size defective;
              subgroup_counts = map length grouped;
              subgroup_defectives = map sum_list grouped;
              p = map2 (\<lambda>d c. real d / real c) subgroup_defectives subgroup_counts
          in Inr \<lparr>p_values = p, p_limits = p_chart_limits subgroup_size p\<rparr>)"

section \<open>u-chart (src/spc/u\_chart.py)\<close>

definition u_chart_count_defects :: "real option \<Rightarrow> real option \<Rightarrow> cell \<Rightarrow> nat" where
  "u_chart_count_defects lower_spec upper_spec x =
     (if (case lower_spec of None \<Rightarrow> False | Some l \<Rightarrow> py_lt x l) then 1
      else if (case upper_spec of None \<Rightarrow> False | Some u \<Rightarrow> py_gt x u) then 1
      else 0)"

definition u_chart_u_bar :: "nat list \<Rightarrow> column \<Rightarrow> real option" where
  \<comment> \<open>\<open>Series.sum\<close> skips NaN\<close>
  "u_chart_u_bar defect_count sample_size =
     fl_div (real (sum_list defect_count)) (sum_list (dropna sample_size))"

definition u_chart_row_limits :: "real option \<Rightarrow> cell \<Rightarrow> control_limits option" where
  "u_chart_row_limits u_bar sample_size_i = do {
     ub \<leftarrow> u_bar;
     n \<leftarrow> sample_size_i;
     q \<leftarrow> fl_div ub n;
     root \<leftarrow> np_sqrt q;
     Some \<lparr>LCL = max 0 (ub - 3 * root), CL = ub, UCL = ub + 3 * root\<rparr>
   }"

record u_statistics =
  u_sample_size :: column
  u_values :: "real option list"
  u_center :: "real option"
  u_limits :: "control_limits option list"
  u_out_of_control :: "bool list"

record u_chart =
  u_stats :: u_statistics
  u_labels :: column

definition u_chart_out_of_control :: "real option \<Rightarrow> control_limits option \<Rightarrow> bool" where
  \<comment> \<open>\<open>df['u'] > df['UCL']\<close>: False where either side is not a finite number\<close>
  "u_chart_out_of_control u limits =
     (case (u, limits) of (Some v, Some l) \<Rightarrow> v > UCL l | _ \<Rightarrow> False)"

definition u_chart_statistics :: "nat list \<Rightarrow> column \<Rightarrow> u_statistics" where
  "u_chart_statistics defect_count sample_size =
     (let u = map2 (\<lambda>d n. Option.bind n (fl_div (real d))) defect_count sample_size;
          u_bar = u_chart_u_bar defect_count sample_size;
          limits = map (u_chart_row_limits u_bar) sample_size;
          out_of_control = map2 u_chart_out_of_control u limits
      in \<lparr>u_sample_size = sample_size, u_values = u, u_center = u_bar, u_limits = limits,
          u_out_of_control = out_of_control\<rparr>)"

text \<open>
  The function adds its working columns to a copy of the DataFrame. \<open>defect_count\<close> is
  added before \<open>df[sample_size_col]\<close> is read, so that name resolves to the new column.
  The columns added later (\<open>sample_size\<close>, \<open>u\<close>, \<open>UCL\<close>, \<open>LCL\<close>,
  \<open>out_of_control\<close>) are written in the same way; the last read, \<open>df['material_salida']\<close>,
  sees them too. The boolean column \<open>out_of_control\<close> is stored as 1 and 0.
\<close>

definition set_column :: "string \<Rightarrow> column \<Rightarrow> dataframe \<Rightarrow> dataframe" where
  "set_column name xs df =
     (if name \<in> set (map fst df) then map (\<lambda>(k, v). if k = name then (k, xs) else (k, v)) df
      else df @ [(name, xs)])"

definition u_chart_add_columns :: "column \<Rightarrow> u_statistics \<Rightarrow> dataframe \<Rightarrow> dataframe" where
  "u_chart_add_columns sample_size stats df =
     set_column ''out_of_control'' (map (\<lambda>b. Some (if b then 1 else 0)) (u_out_of_control stats))
       (set_column ''LCL'' (map (map_option LCL) (u_limits stats))
         (set_column ''UCL'' (map (map_option UCL) (u_limits stats))
           (set_column ''u'' (u_values stats)
             (set_column ''sample_size'' sample_size df))))"

definition plot_u_chart ::
  "dataframe \<Rightarrow> string \<Rightarrow> string \<Rightarrow> real option \<Rightarrow> real option \<Rightarrow> error + u_chart" where
  "plot_u_chart df column sample_size_col lower_spec upper_spec =
     (if lower_spec = None \<and> upper_spec = None
      then Inl (ValueError ''At least one of lower_spec or upper_spec must be specified.'')
      else case map_of df column of
        None \<Rightarrow> Inl (KeyError column)
      | Some xs \<Rightarrow>
          let defect_count = map (u_chart_count_defects lower_spec upper_spec) xs;
              df = set_column ''defect_count'' (map (\<lambda>d. Some (real d)) defect_count) df
          in case map_of df sample_size_col of
            None \<Rightarrow> Inl (KeyError sample_size_col)
          | Some sample_size \<Rightarrow>
              let stats = u_chart_statistics defect_count sample_size;
                  df = u_chart_add_columns sample_size stats df
              in case map_of df ''material_salida'' of
                None \<Rightarrow> Inl (KeyError ''material_salida'')
              | Some labels \<Rightarrow> Inr \<lparr>u_stats = stats, u_labels = labels\<rparr>)"

section \<open>Specification limits\<close>


section \<open>Hotelling T-squared chart (src/spc/t2\_chart.py)\<close>

fun select_columns :: "dataframe \<Rightarrow> string list \<Rightarrow> error + column list" where
  \<comment> \<open>\<open>df[names]\<close> for a list of names: KeyError unless every name is a column\<close>
  "select_columns df [] = Inr []"
| "select_columns df (c # cs) =
     (case map_of df c of
        None \<Rightarrow> Inl (KeyError c)
      | Some xs \<Rightarrow> (case select_columns df cs of
                     Inl e \<Rightarrow> Inl e
                   | Inr rest \<Rightarrow> Inr (xs # rest)))"

definition complete_rows :: "nat \<Rightarrow> column list \<Rightarrow> real list list" where
  \<comment> \<open>\<open>.dropna().values\<close> of a frame: the rows without NaN, as a matrix\<close>
  "complete_rows n cols =
     List.map_filter (\<lambda>i. those (map (\<lambda>c. c ! i) cols)) [0..<n]"

text \<open>
  The function reads the columns of \<open>numeric_columns\<close>, then the column
  \<open>material_salida\<close>, and only then computes. Lines 73 to 158 of the source (mean and
  covariance, \<open>np.linalg.inv\<close>, the statistic of each row, the quantile
  \<open>scipy.stats.f.ppf\<close>, the figure) are the parameter \<open>statistics_and_figure\<close>: they run
  on the matrix \<open>X\<close> and the labels, inside numpy and scipy.
\<close>

definition plot_t2_chart ::
  "(real list list \<Rightarrow> column \<Rightarrow> error + 'figure) \<Rightarrow> dataframe \<Rightarrow> string list
     \<Rightarrow> error + 'figure" where
  "plot_t2_chart statistics_and_figure df numeric_columns =
     (case select_columns df numeric_columns of
        Inl e \<Rightarrow> Inl e
      | Inr cols \<Rightarrow>
          let X = complete_rows (nrows df) cols
          in case map_of df ''material_salida'' of
            None \<Rightarrow> Inl (KeyError ''material_salida'')
          | Some material_labels \<Rightarrow> statistics_and_figure X material_labels)"

section \<open>I-MR chart (src/spc/imr\_chart.py)\<close>

definition notna_index :: "column \<Rightarrow> nat list" where
  \<comment> \<open>the index of \<open>series.dropna()\<close>: the row numbers of the values that are not NaN\<close>
  "notna_index col = filter (\<lambda>i. col ! i \<noteq> None) [0..<length col]"

definition np_diff :: "real list \<Rightarrow> real list" where
  "np_diff xs = map2 (\<lambda>a b. b - a) xs (tl xs)"

record imr_chart =
  imr_data :: "real list"
  imr_moving_ranges :: "real list"
  imr_material_salida_individuals :: "cell list"
  imr_material_salida_mr :: "(cell \<times> cell) list"
  imr_x_limits :: control_limits
  imr_mr_limits :: control_limits

definition plot_imr_chart :: "dataframe \<Rightarrow> string \<Rightarrow> string \<Rightarrow> error + imr_chart" where
  "plot_imr_chart df value_column grouping_column =
     (case map_of df value_column of
        None \<Rightarrow> Inl (KeyError value_column)
      | Some data_series \<Rightarrow>
          let data = dropna data_series;
              indices = notna_index data_series
          in if length data < 2
             then Inl (ValueError ''At least 2 data points required for Moving Range calculation'')
             else
               let moving_ranges = map abs (np_diff data)
               in case map_of df grouping_column of
                 None \<Rightarrow> Inl (KeyError grouping_column)
               | Some labels \<Rightarrow>
                   let material_salida_individuals = map (\<lambda>idx. labels ! idx) indices;
                       material_salida_mr =
                         map (\<lambda>i. (labels ! (indices ! i), labels ! (indices ! (i + 1))))
                           [0..<length indices - 1];
                       X_bar = np_mean data;
                       MR_bar = np_mean moving_ranges;
                       E2 = 2659 / 1000;
                       D3 = 0;
                       D4 = 3267 / 1000
                   in Inr \<lparr>imr_data = data,
                           imr_moving_ranges = moving_ranges,
                           imr_material_salida_individuals = material_salida_individuals,
                           imr_material_salida_mr = material_salida_mr,
                           imr_x_limits = \<lparr>LCL = X_bar - E2 * MR_bar, CL = X_bar,
                                           UCL = X_bar + E2 * MR_bar\<rparr>,
                           imr_mr_limits = \<lparr>LCL = D3 * MR_bar, CL = MR_bar,
                                            UCL = D4 * MR_bar\<rparr>\<rparr>)"

section \<open>X-bar charts (src/spc\_charts/x\_bar\_r.py, src/spc/x\_bar\_s.py)\<close>

fun reshape :: "nat \<Rightarrow> nat \<Rightarrow> 'a list \<Rightarrow> 'a list list" where
  \<comment> \<open>\<open>a.reshape((k, n))\<close> of an array of \<open>k * n\<close> values: its \<open>k\<close> rows\<close>
  "reshape 0 n xs = []"
| "reshape (Suc k) n xs = take n xs # reshape k n (drop n xs)"

definition np_ptp :: "real list \<Rightarrow> real" where
  "np_ptp xs = Max (set xs) - Min (set xs)"

definition np_std_ddof1 :: "real list \<Rightarrow> real option" where
  \<comment> \<open>\<open>np.std(xs, ddof=1)\<close>: the divisor is \<open>max(n - 1, 0)\<close>, so NaN for fewer than two values\<close>
  "np_std_ddof1 xs =
     (let m = np_mean xs
      in Option.bind (fl_div (sum_list (map (\<lambda>x. (x - m)\<^sup>2) xs)) (real (length xs - 1)))
           np_sqrt)"

definition A2_table :: "(int \<times> real) list" where
  "A2_table = [(2, 1.88), (3, 1.023), (4, 0.729), (5, 0.577), (6, 0.483), (7, 0.419),
               (8, 0.373), (9, 0.337), (10, 0.308)]"

definition D3_table :: "(int \<times> real) list" where
  "D3_table = [(2, 0), (3, 0), (4, 0), (5, 0), (6, 0), (7, 0.076), (8, 0.136), (9, 0.184),
               (10, 0.223)]"

definition D4_table :: "(int \<times> real) list" where
  "D4_table = [(2, 3.267), (3, 2.574), (4, 2.282), (5, 2.114), (6, 2.004), (7, 1.924),
               (8, 1.864), (9, 1.816), (10, 1.777)]"

definition A3_table :: "(int \<times> real) list" where
  "A3_table = [(2, 2.659), (3, 1.954), (4, 1.628), (5, 1.427), (6, 1.287), (7, 1.182),
               (8, 1.099), (9, 1.032), (10, 0.975)]"

definition B3_table :: "(int \<times> real) list" where
  "B3_table = [(2, 0), (3, 0), (4, 0), (5, 0), (6, 0.030), (7, 0.118), (8, 0.185), (9, 0.239),
               (10, 0.284)]"

definition B4_table :: "(int \<times> real) list" where
  "B4_table = [(2, 3.267), (3, 2.568), (4, 2.266), (5, 2.089), (6, 1.970), (7, 1.882),
               (8, 1.815), (9, 1.761), (10, 1.716)]"

definition lookup3 ::
  "(int \<times> real) list \<Rightarrow> (int \<times> real) list \<Rightarrow> (int \<times> real) list \<Rightarrow> int
     \<Rightarrow> (real \<times> real \<times> real) option" where
  \<comment> \<open>the three dictionary reads of the \<open>try\<close> block; \<open>None\<close> is its KeyError\<close>
  "lookup3 t1 t2 t3 key = do {
     c1 \<leftarrow> map_of t1 key;
     c2 \<leftarrow> map_of t2 key;
     c3 \<leftarrow> map_of t3 key;
     Some (c1, c2, c3)
   }"

definition index_subgroups :: "nat \<Rightarrow> nat \<Rightarrow> nat list \<Rightarrow> nat list list" where
  \<comment> \<open>\<open>[indices[i*n : (i+1)*n] for i in range(k)]\<close>\<close>
  "index_subgroups k n indices = map (\<lambda>i. take n (drop (i * n) indices)) [0..<k]"

record xbar_r_chart =
  xr_xbars :: "real list"
  xr_ranges :: "real list"
  xr_grouping_column_subgroups :: "cell list list"
  xr_x_limits :: control_limits
  xr_R_limits :: control_limits

text \<open>
  \<open>len(data) // subgroup_size\<close> raises ZeroDivisionError for a zero size. For a negative
  size and data present the quotient \<open>k\<close> is negative, and \<open>reshape((k, subgroup_size))\<close>
  with two negative dimensions raises numpy's ValueError.
\<close>

definition xbar_r_chart_plotly ::
  "dataframe \<Rightarrow> string \<Rightarrow> string \<Rightarrow> int \<Rightarrow> error + xbar_r_chart" where
  "xbar_r_chart_plotly df value_column grouping_column subgroup_size =
     (case map_of df value_column of
        None \<Rightarrow> Inl (KeyError value_column)
      | Some data_series \<Rightarrow>
          let data = dropna data_series;
              indices = notna_index data_series
          in if subgroup_size = 0 then Inl ZeroDivisionError
             else
               let k = int (length data) div subgroup_size
               in if k = 0
                  then Inl (ValueError
                         ''Subgroup size is larger than the number of non-NA data points.'')
                  else if k < 0
                  then Inl (ValueError ''can only specify one unknown dimension'')
                  else
                    let groups = reshape (nat k) (nat subgroup_size)
                                   (take (nat (k * subgroup_size)) data);
                        indices_subgroups = index_subgroups (nat k) (nat subgroup_size) indices;
                        xbars = map np_mean groups;
                        ranges = map np_ptp groups
                    in case map_of df grouping_column of
                      None \<Rightarrow> Inl (KeyError grouping_column)
                    | Some labels \<Rightarrow>
                        let grouping_column_subgroups =
                              map (map (\<lambda>idx. labels ! idx)) indices_subgroups;
                            Xbar_bar = np_mean xbars;
                            R_bar = np_mean ranges
                        in case lookup3 A2_table D3_table D4_table subgroup_size of
                          None \<Rightarrow> Inl (ValueError
                            ''Subgroup size {subgroup_size} not supported. Valid sizes: 2-10'')
                        | Some (A2, D3, D4) \<Rightarrow>
                            Inr \<lparr>xr_xbars = xbars,
                                 xr_ranges = ranges,
                                 xr_grouping_column_subgroups = grouping_column_subgroups,
                                 xr_x_limits = \<lparr>LCL = Xbar_bar - A2 * R_bar, CL = Xbar_bar,
                                                UCL = Xbar_bar + A2 * R_bar\<rparr>,
                                 xr_R_limits = \<lparr>LCL = D3 * R_bar, CL = R_bar,
                                                UCL = D4 * R_bar\<rparr>\<rparr>)"

record xbar_s_chart =
  xs_xbars :: "real list"
  xs_s_values :: "real option list"
  xs_material_salida_subgroups :: "cell list list"
  xs_x_limits :: "control_limits option"
  xs_S_limits :: "control_limits option"

definition plot_xbar_s_chart ::
  "dataframe \<Rightarrow> string \<Rightarrow> string \<Rightarrow> int \<Rightarrow> error + xbar_s_chart" where
  "plot_xbar_s_chart df value_column grouping_column subgroup_size =
     (case map_of df value_column of
        None \<Rightarrow> Inl (KeyError value_column)
      | Some data_series \<Rightarrow>
          let data = dropna data_series;
              indices = notna_index data_series
          in if subgroup_size = 0 then Inl ZeroDivisionError
             else
               let k = int (length data) div subgroup_size
               in if k = 0
                  then Inl (ValueError
                         ''Subgroup size is larger than the number of non-NA data points.'')
                  else if k < 0
                  then Inl (ValueError ''can only specify one unknown dimension'')
                  else
                    let groups = reshape (nat k) (nat subgroup_size)
                                   (take (nat (k * subgroup_size)) data);
                        indices_subgroups = index_subgroups (nat k) (nat subgroup_size) indices;
                        xbars = map np_mean groups;
                        s_values = map np_std_ddof1 groups
                    in case map_of df grouping_column of
                      None \<Rightarrow> Inl (KeyError grouping_column)
                    | Some labels \<Rightarrow>
                        let material_salida_subgroups =
                              map (map (\<lambda>idx. labels ! idx)) indices_subgroups;
                            Xbar_bar = np_mean xbars;
                            S_bar = map_option np_mean (those s_values)
                        in case lookup3 A3_table B3_table B4_table subgroup_size of
                          None \<Rightarrow> Inl (ValueError
                            ''Subgroup size {subgroup_size} not supported. Valid sizes: 2-10'')
                        | Some (A3, B3, B4) \<Rightarrow>
                            Inr \<lparr>xs_xbars = xbars,
                                 xs_s_values = s_values,
                                 xs_material_salida_subgroups = material_salida_subgroups,
                                 xs_x_limits = map_option (\<lambda>S_bar.
                                    \<lparr>LCL = Xbar_bar - A3 * S_bar, CL = Xbar_bar,
                                     UCL = Xbar_bar + A3 * S_bar\<rparr>) S_bar,
                                 xs_S_limits = map_option (\<lambda>S_bar.
                                    \<lparr>LCL = B3 * S_bar, CL = S_bar, UCL = B4 * S_bar\<rparr>) S_bar\<rparr>)"

section \<open>EWMA chart (src/spc/ewma\_chart.py)\<close>












section \<open>ECDF charts (src/standard/ecdf.py, src/model/cummulative\_residuals.py)\<close>

definition ecdf_values :: "nat \<Rightarrow> real list" where
  \<comment> \<open>\<open>np.arange(1, n + 1) / n\<close>; the empty array for \<open>n = 0\<close>\<close>
  "ecdf_values n = map (\<lambda>i. real i / real n) [1..<n + 1]"

record ecdf_chart =
  ecdf_x :: dataframe
  ecdf_y :: "real list"

text \<open>
  \<open>plot_ecdf\<close> sorts the values of the column that are not NaN into \<open>df\<close>, and then
  takes \<open>n\<close> and the trace's \<open>x\<close> from \<open>data\<close>, the whole DataFrame it was given.
\<close>

definition plot_ecdf :: "dataframe \<Rightarrow> string \<Rightarrow> error + ecdf_chart" where
  "plot_ecdf data numeric_col =
     (case map_of data numeric_col of
        None \<Rightarrow> Inl (KeyError numeric_col)
      | Some col \<Rightarrow>
          let df = sort (dropna col);
              n = df_size data;
              y = ecdf_values n
          in Inr \<lparr>ecdf_x = data, ecdf_y = y\<rparr>)"

definition row_of :: "column list \<Rightarrow> nat \<Rightarrow> cell list" where
  "row_of cols i = map (\<lambda>c. c ! i) cols"

definition np_sort_cells :: "column \<Rightarrow> column" where
  \<comment> \<open>\<open>np.sort\<close>: ascending, NaN last\<close>
  "np_sort_cells xs =
     map Some (sort (dropna xs)) @ replicate (length xs - length (dropna xs)) None"

record cumulative_error_chart =
  ced_sorted_residuals :: column
  ced_ecdf :: "real list"

text \<open>
  A fitted model is outside the repository. It is here its \<open>predict\<close>, one number for a
  row of feature cells, with its SHAP explainer: \<open>shap.Explainer(model)(data)\<close> gives,
  for each row, the attribution of each feature (\<open>values\<close>) and a baseline
  (\<open>base_values\<close>).
\<close>

record explanation =
  shap_row_values :: "real list list"
  base_values :: "real list"

record fitted_model =
  predict :: "cell list \<Rightarrow> real"
  explainer :: "dataframe \<Rightarrow> explanation"

definition plot_cumulative_error_distribution ::
  "fitted_model \<Rightarrow> string list \<Rightarrow> dataframe \<Rightarrow> string
     \<Rightarrow> error + cumulative_error_chart" where
  "plot_cumulative_error_distribution model feature_names data target_name =
     (case select_columns data feature_names of
        Inl e \<Rightarrow> Inl e
      | Inr X \<Rightarrow>
          (case map_of data target_name of
             None \<Rightarrow> Inl (KeyError target_name)
           | Some y_true \<Rightarrow>
               let y_pred = map (\<lambda>i. predict model (row_of X i)) [0..<length y_true];
                   residuals = map2 (\<lambda>t p. map_option (\<lambda>v. \<bar>v - p\<bar>) t) y_true y_pred;
                   sorted_residuals = np_sort_cells residuals;
                   ecdf = ecdf_values (length sorted_residuals)
               in Inr \<lparr>ced_sorted_residuals = sorted_residuals, ced_ecdf = ecdf\<rparr>))"

section \<open>SHAP waterfall and decision plots (src/shappley)\<close>













lemma map_of_overwrite_other:
  "name \<noteq> k \<Longrightarrow>
     map_of (map (\<lambda>(k', v). if k' = name then (k', xs) else (k', v)) df) k = map_of df k"
  by (induction df) auto

lemma set_column_other:
  "name \<noteq> k \<Longrightarrow> map_of (set_column name xs df) k = map_of df k"
  by (auto simp: set_column_def map_of_overwrite_other map_add_def split: option.splits)

lemma plot_u_chart_error:
  "plot_u_chart df column sample_size_col lower_spec upper_spec = Inl e \<Longrightarrow>
     (lower_spec = None \<and> upper_spec = None) \<or> (\<exists>k. e = KeyError k)"
  unfolding plot_u_chart_def Let_def
  by (auto split: if_splits option.splits)

text \<open>
  C8. With \<open>lower_spec\<close> and \<open>upper_spec\<close> both \<open>None\<close>, each of the c-, np-, p- and
  u-chart raises its ValueError whatever the DataFrame and the column names are, so before
  any column is read and before any statistic is computed. With at least one limit given,
  no ValueError is raised at all.
\<close>

theorem spec_limits_required:
  "plot_c_chart df column None None =
     Inl (ValueError ''You must define at least one specification limit.'')
   \<and> plot_np_chart df column subgroup_size None None =
     Inl (ValueError ''At least one of lower_spec or upper_spec must be specified.'')
   \<and> plot_p_chart df column subgroup_size None None =
     Inl (ValueError ''At least one of lower_spec or upper_spec must be defined.'')
   \<and> plot_u_chart df column sample_size_col None None =
     Inl (ValueError ''At least one of lower_spec or upper_spec must be specified.'')
   \<and> (lower_spec \<noteq> None \<or> upper_spec \<noteq> None \<longrightarrow>
        plot_c_chart df column lower_spec upper_spec \<noteq> Inl (ValueError msg)
      \<and> plot_np_chart df column subgroup_size lower_spec upper_spec \<noteq> Inl (ValueError msg)
      \<and> plot_p_chart df column subgroup_size lower_spec upper_spec \<noteq> Inl (ValueError msg)
      \<and> plot_u_chart df column sample_size_col lower_spec upper_spec \<noteq> Inl (ValueError msg))"
proof -
  have c: "plot_c_chart df column lower_spec upper_spec \<noteq> Inl (ValueError msg)"
    if "lower_spec \<noteq> None \<or> upper_spec \<noteq> None"
    using that by (auto simp: plot_c_chart_def Let_def split: option.splits)
  have np: "plot_np_chart df column subgroup_size lower_spec upper_spec \<noteq> Inl (ValueError msg)"
    if "lower_spec \<noteq> None \<or> upper_spec \<noteq> None"
    using that by (auto simp: plot_np_chart_def Let_def split: option.splits)
  have p: "plot_p_chart df column subgroup_size lower_spec upper_spec \<noteq> Inl (ValueError msg)"
    if "lower_spec \<noteq> None \<or> upper_spec \<noteq> None"
    using that by (auto simp: plot_p_chart_def Let_def split: option.splits)
  have u: "plot_u_chart df column sample_size_col lower_spec upper_spec \<noteq> Inl (ValueError msg)"
    if "lower_spec \<noteq> None \<or> upper_spec \<noteq> None"
    using that plot_u_chart_error by fastforce
  show ?thesis
    using c np p u
    by (simp add: plot_c_chart_def plot_np_chart_def plot_p_chart_def plot_u_chart_def)
qed

theorem spec_limits_required_witness:
  "plot_c_chart [(''x'', [Some 1])] ''x'' None None =
     Inl (ValueError ''You must define at least one specification limit.'')
   \<and> plot_c_chart [(''x'', [Some 1])] ''x'' (Some 0) None
       \<noteq> Inl (ValueError ''You must define at least one specification limit.'')
   \<and> plot_u_chart [(''x'', [Some 1]), (''n'', [Some 2])] ''x'' ''n'' None (Some 3)
       \<noteq> Inl (ValueError ''At least one of lower_spec or upper_spec must be specified.'')"
  using spec_limits_required [of "[(''x'', [Some 1])]" "''x''" 1 "''n''" "Some 0" None
      "''You must define at least one specification limit.''"]
    spec_limits_required [of "[(''x'', [Some 1]), (''n'', [Some 2])]" "''x''" 1 "''n''" None "Some 3"
      "''At least one of lower_spec or upper_spec must be specified.''"]
  by simp



section \<open>Control limits of the count, proportion and rate charts\<close>

lemma sum_list_real_nonneg: "0 \<le> sum_list (map real ns)"
  by (induction ns) auto

lemma c_chart_limits_ordered:
  assumes "c_chart_limits defect_count = Some l"
  shows "limits_in_order l"
proof -
  from assms obtain c_bar root where
    c: "pd_mean (map real defect_count) = Some c_bar" and
    r: "np_sqrt c_bar = Some root" and
    l: "l = \<lparr>LCL = max 0 (c_bar - 3 * root), CL = c_bar, UCL = c_bar + 3 * root\<rparr>"
    by (auto simp: c_chart_limits_def bind_eq_Some_conv)
  from c have "0 \<le> c_bar"
    using sum_list_real_nonneg [of defect_count]
    by (auto simp: pd_mean_def fl_div_def split: if_splits)
  moreover from r have "0 \<le> root"
    by (auto simp: np_sqrt_def split: if_splits)
  ultimately show ?thesis
    by (simp add: l limits_in_order_def)
qed

lemma np_chart_limits_ordered:
  assumes "np_chart_limits subgroup_size vals = Some l" and "0 < subgroup_size"
  shows "limits_in_order l"
proof -
  let ?s = "real_of_int subgroup_size"
  from assms(1) obtain np_bar p_bar q root where
    c: "pd_mean (map real vals) = Some np_bar" and
    p: "fl_div np_bar ?s = Some p_bar" and
    q: "fl_div (p_bar * (1 - p_bar)) ?s = Some q" and
    r: "np_sqrt q = Some root" and
    l: "l = \<lparr>LCL = max 0 (?s * (p_bar - 3 * root)), CL = np_bar,
             UCL = ?s * (p_bar + 3 * root)\<rparr>"
    by (auto simp: np_chart_limits_def bind_eq_Some_conv)
  have s: "0 < ?s" using assms(2) by simp
  from c have nb: "0 \<le> np_bar"
    using sum_list_real_nonneg [of vals]
    by (auto simp: pd_mean_def fl_div_def split: if_splits)
  from r have root: "0 \<le> root"
    by (auto simp: np_sqrt_def split: if_splits)
  from p s have pb: "?s * p_bar = np_bar"
    by (auto simp: fl_div_def split: if_splits)
  have "0 \<le> ?s * (3 * root)" using s root by simp
  then have "?s * (p_bar - 3 * root) \<le> np_bar" "np_bar \<le> ?s * (p_bar + 3 * root)"
    using pb by (simp_all add: algebra_simps)
  then show ?thesis
    using nb by (simp add: l limits_in_order_def)
qed

lemma p_chart_limits_ordered:
  assumes "p_chart_limits subgroup_size p = Some l" and "\<forall>x \<in> set p. 0 \<le> x"
  shows "limits_in_order l"
proof -
  from assms(1) obtain p_bar q root where
    c: "pd_mean p = Some p_bar" and
    r: "np_sqrt q = Some root" and
    l: "l = \<lparr>LCL = max 0 (p_bar - 3 * root), CL = p_bar, UCL = p_bar + 3 * root\<rparr>"
    by (auto simp: p_chart_limits_def bind_eq_Some_conv)
  have "0 \<le> sum_list p" using assms(2) by (simp add: sum_list_nonneg)
  with c have "0 \<le> p_bar"
    by (auto simp: pd_mean_def fl_div_def split: if_splits)
  moreover from r have "0 \<le> root"
    by (auto simp: np_sqrt_def split: if_splits)
  ultimately show ?thesis
    by (simp add: l limits_in_order_def)
qed

lemma u_chart_row_limits_ordered:
  assumes "u_chart_row_limits (Some ub) n = Some l" and "0 \<le> ub"
  shows "limits_in_order l"
proof -
  from assms(1) obtain q root where
    r: "np_sqrt q = Some root" and
    l: "l = \<lparr>LCL = max 0 (ub - 3 * root), CL = ub, UCL = ub + 3 * root\<rparr>"
    by (auto simp: u_chart_row_limits_def bind_eq_Some_conv)
  from r have "0 \<le> root"
    by (auto simp: np_sqrt_def split: if_splits)
  then show ?thesis
    using assms(2) by (simp add: l limits_in_order_def)
qed

lemma u_chart_u_bar_nonneg:
  assumes "u_chart_u_bar defect_count sample_size = Some ub"
    and "0 < sum_list (dropna sample_size)"
  shows "0 \<le> ub"
  using assms by (auto simp: u_chart_u_bar_def fl_div_def split: if_splits)

lemma p_values_nonneg:
  "\<forall>x \<in> set (map2 (\<lambda>d c. real d / real c) ds cs). 0 \<le> x"
  by (auto simp: in_set_zip)

lemma sqrt_quarter: "sqrt (1 / 4) = 1 / 2"
  by (simp add: real_sqrt_divide)

lemma sqrt_four_ninths: "sqrt (4 / 9) = 2 / 3"
proof -
  have "sqrt 9 = sqrt (3\<^sup>2)" by simp
  then have "sqrt 9 = 3" by (simp only: real_sqrt_abs)
  then show ?thesis by (simp add: real_sqrt_divide)
qed

lemma subgroups_neg_example: "subgroups (- 1) [Suc 0, 0, 0] = [[0], [0], [Suc 0]]"
  by code_simp

lemma subgroups_one_example: "subgroups 1 [Suc 0, 0] = [[Suc 0], [0]]"
  by code_simp

lemma plot_p_chart_limits:
  assumes "plot_p_chart df column s lo hi = Inr p" and "p_limits p = Some l"
  shows "limits_in_order l"
proof -
  from assms(1) obtain xs where xs: "map_of df column = Some xs"
    by (auto simp: plot_p_chart_def split: if_splits option.splits)
  define grouped where "grouped = subgroups s (map (p_chart_is_defective lo hi) xs)"
  from assms(1) xs have "p_limits p = p_chart_limits s
      (map2 (\<lambda>d c. real d / real c) (map sum_list grouped) (map length grouped))"
    by (auto simp: plot_p_chart_def Let_def grouped_def split: if_splits)
  with assms(2) show ?thesis
    using p_chart_limits_ordered [OF _ p_values_nonneg] by simp
qed

lemma np_chart_negative_example:
  "plot_np_chart [(''x'', [Some 1, Some 0, Some 0])] ''x'' (- 1) None (Some 0) =
     Inr \<lparr>np_values = [0, 0, 1],
          np_limits = Some \<lparr>LCL = 7 / 3, CL = 1 / 3, UCL = - (5 / 3)\<rparr>\<rparr>"
  by (simp add: plot_np_chart_def np_chart_is_defective_def py_gt_def py_lt_def
      subgroups_neg_example np_chart_limits_def pd_mean_def fl_div_def np_sqrt_def
      sqrt_four_ninths Let_def)

lemma u_chart_negative_example:
  "plot_u_chart [(''x'', [Some 1]), (''n'', [Some (- 1)]), (''material_salida'', [Some 7])]
       ''x'' ''n'' (Some 2) None =
     Inr \<lparr>u_stats = \<lparr>u_sample_size = [Some (- 1)], u_values = [Some (- 1)],
                      u_center = Some (- 1),
                      u_limits = [Some \<lparr>LCL = 0, CL = - 1, UCL = 2\<rparr>],
                      u_out_of_control = [False]\<rparr>,
          u_labels = [Some 7]\<rparr>"
  by (simp add: plot_u_chart_def u_chart_count_defects_def py_lt_def set_column_def
      u_chart_add_columns_def u_chart_statistics_def u_chart_u_bar_def u_chart_row_limits_def
      u_chart_out_of_control_def fl_div_def np_sqrt_def Let_def)

text \<open>
  C5 as stated fails. The np-chart accepts a negative \<open>subgroup_size\<close>, and the limits
  it then computes are finite and in the reverse order; the u-chart accepts negative
  sample sizes, and its center line is then below its lower limit of zero.
\<close>

theorem control_limits_counterexample:
  "plot_np_chart [(''x'', [Some 1, Some 0, Some 0])] ''x'' (- 1) None (Some 0) =
     Inr \<lparr>np_values = [0, 0, 1],
          np_limits = Some \<lparr>LCL = 7 / 3, CL = 1 / 3, UCL = - (5 / 3)\<rparr>\<rparr>
   \<and> \<not> limits_in_order \<lparr>LCL = 7 / 3, CL = 1 / 3, UCL = - (5 / 3)\<rparr>
   \<and> plot_u_chart [(''x'', [Some 1]), (''n'', [Some (- 1)]), (''material_salida'', [Some 7])]
       ''x'' ''n'' (Some 2) None =
     Inr \<lparr>u_stats = \<lparr>u_sample_size = [Some (- 1)], u_values = [Some (- 1)],
                      u_center = Some (- 1),
                      u_limits = [Some \<lparr>LCL = 0, CL = - 1, UCL = 2\<rparr>],
                      u_out_of_control = [False]\<rparr>,
          u_labels = [Some 7]\<rparr>
   \<and> \<not> limits_in_order \<lparr>LCL = 0, CL = - 1, UCL = 2\<rparr>"
  using np_chart_negative_example u_chart_negative_example by (simp add: limits_in_order_def)

lemma plot_c_chart_limits:
  assumes "plot_c_chart df column lo hi = Inr c" and "c_limits c = Some l"
  shows "limits_in_order l"
proof -
  from assms have "\<exists>ds. c_chart_limits ds = Some l"
    by (auto simp: plot_c_chart_def Let_def split: if_splits option.splits)
  then show ?thesis
    using c_chart_limits_ordered by blast
qed

lemma plot_np_chart_limits:
  assumes "plot_np_chart df column s lo hi = Inr n" and "np_limits n = Some l" and "0 < s"
  shows "limits_in_order l"
proof -
  from assms(1,2) have "\<exists>vs. np_chart_limits s vs = Some l"
    by (auto simp: plot_np_chart_def Let_def split: if_splits option.splits)
  then show ?thesis
    using np_chart_limits_ordered assms(3) by blast
qed

lemma plot_u_chart_limits:
  assumes "plot_u_chart df column sample_size_col lo hi = Inr u"
    and "0 < sum_list (dropna (u_sample_size (u_stats u)))"
    and "Some l \<in> set (u_limits (u_stats u))"
  shows "limits_in_order l \<and> u_center (u_stats u) = Some (CL l)"
proof -
  from assms(1) obtain defect_count sample_size where
    st: "u_stats u = u_chart_statistics defect_count sample_size"
    by (auto simp: plot_u_chart_def Let_def split: if_splits option.splits)
  have ss: "u_sample_size (u_stats u) = sample_size"
    and lim: "u_limits (u_stats u) =
       map (u_chart_row_limits (u_chart_u_bar defect_count sample_size)) sample_size"
    and cen: "u_center (u_stats u) = u_chart_u_bar defect_count sample_size"
    by (simp_all add: st u_chart_statistics_def Let_def)
  from assms(3) lim obtain n where
    row: "u_chart_row_limits (u_chart_u_bar defect_count sample_size) n = Some l"
    by auto
  then obtain ub where ub: "u_chart_u_bar defect_count sample_size = Some ub"
    by (auto simp: u_chart_row_limits_def bind_eq_Some_conv)
  have "0 \<le> ub"
    using u_chart_u_bar_nonneg [OF ub] assms(2) ss by simp
  then have "limits_in_order l"
    using u_chart_row_limits_ordered row ub by simp
  moreover have "CL l = ub"
    using row ub by (auto simp: u_chart_row_limits_def bind_eq_Some_conv)
  ultimately show ?thesis
    using cen ub by simp
qed

lemma defective_le_one:
  "np_chart_is_defective lo hi x \<le> 1" "p_chart_is_defective lo hi x \<le> 1"
  by (simp_all add: np_chart_is_defective_def p_chart_is_defective_def)

lemma sum_list_le_length:
  "\<forall>x \<in> set xs. x \<le> (1::nat) \<Longrightarrow> sum_list xs \<le> length xs"
  by (induction xs) auto

lemma subgroup_members:
  assumes "0 < s"
  shows "{i. int i div s = k} \<subseteq> {nat (k * s)..<nat (k * s) + nat s}"
proof
  fix i
  assume "i \<in> {i. int i div s = k}"
  then have k: "int i div s = k" by simp
  have "k * s \<le> int i"
    using assms k by (metis div_mult_mod_eq le_add_same_cancel1 pos_mod_sign)
  moreover have "int i < k * s + s"
    using assms k by (metis div_mult_mod_eq add_strict_left_mono pos_mod_bound)
  moreover have "0 \<le> int i div s"
    using assms by (simp add: pos_imp_zdiv_nonneg_iff)
  then have "0 \<le> k"
    using k by simp
  ultimately show "i \<in> {nat (k * s)..<nat (k * s) + nat s}"
    using assms by auto
qed

lemma subgroup_size_le:
  assumes "0 < s"
  shows "length (filter (\<lambda>(k', v). k' = k) (zip (map (\<lambda>i. int i div s) [0..<length vals]) vals))
           \<le> nat s"
proof -
  let ?z = "zip (map (\<lambda>i. int i div s) [0..<length vals]) vals"
  have "length (filter (\<lambda>(k', v). k' = k) ?z)
          = card {i. i < length ?z \<and> (\<lambda>(k', v). k' = k) (?z ! i)}"
    by (rule length_filter_conv_card)
  also have "{i. i < length ?z \<and> (\<lambda>(k', v). k' = k) (?z ! i)}
               = {i. i < length vals \<and> int i div s = k}"
    by auto
  also have "card \<dots> \<le> card {nat (k * s)..<nat (k * s) + nat s}"
    using subgroup_members [OF assms, of k] by (intro card_mono) auto
  also have "\<dots> = nat s" by simp
  finally show ?thesis .
qed

lemma subgroups_nonempty:
  assumes "subgroup_size \<noteq> 0" and "vals \<noteq> []"
  shows "subgroups subgroup_size vals \<noteq> []"
proof -
  have "map (\<lambda>i. int i div subgroup_size) [0..<length vals] \<noteq> []"
    using assms(2) by simp
  then have "remdups (map (\<lambda>i. int i div subgroup_size) [0..<length vals]) \<noteq> []"
    by (simp only: remdups_eq_nil_iff not_False_eq_True)
  then have "sort (remdups (map (\<lambda>i. int i div subgroup_size) [0..<length vals])) \<noteq> []"
    by (metis length_greater_0_conv length_sort)
  then show ?thesis
    using assms(1) by (simp add: subgroups_def Let_def)
qed

lemma subgroups_member:
  assumes "0 < subgroup_size" and "g \<in> set (subgroups subgroup_size vals)"
  shows "length g \<le> nat subgroup_size" and "g \<noteq> []" and "set g \<subseteq> set vals"
proof -
  let ?labels = "map (\<lambda>i. int i div subgroup_size) [0..<length vals]"
  from assms obtain k where k: "k \<in> set ?labels"
    and g: "g = map snd (filter (\<lambda>(k', v). k' = k) (zip ?labels vals))"
    by (auto simp: subgroups_def Let_def)
  show "length g \<le> nat subgroup_size"
    using subgroup_size_le [OF assms(1), of k vals] by (simp add: g)
  from k obtain i where i: "i < length vals" "int i div subgroup_size = k"
    by auto
  then have "(k, vals ! i) \<in> set (zip ?labels vals)"
    by (auto simp: set_zip intro!: exI [of _ i])
  then have "vals ! i \<in> set g"
    by (force simp: g)
  then show "g \<noteq> []" by auto
  show "set g \<subseteq> set vals"
    by (auto simp: g dest: set_zip_rightD)
qed

lemma mean_bounds:
  fixes xs :: "real list"
  assumes "xs \<noteq> []" and "\<forall>x \<in> set xs. a \<le> x \<and> x \<le> b"
  shows "\<exists>m. pd_mean xs = Some m \<and> a \<le> m \<and> m \<le> b"
proof -
  have n: "0 < real (length xs)" using assms(1) by simp
  have "real (length xs) * a \<le> sum_list xs \<and> sum_list xs \<le> real (length xs) * b"
    using assms(2) by (induction xs) (auto simp: algebra_simps)
  then have "a \<le> sum_list xs / real (length xs)" "sum_list xs / real (length xs) \<le> b"
    using n by (simp_all add: pos_le_divide_eq pos_divide_le_eq mult.commute)
  then show ?thesis
    using n by (simp add: pd_mean_def fl_div_def)
qed

lemma c_chart_limits_finite:
  assumes "defect_count \<noteq> []"
  shows "\<exists>l. c_chart_limits defect_count = Some l"
proof -
  have "\<forall>x \<in> set (map real defect_count). 0 \<le> x \<and> x \<le> real (Max (set defect_count))"
    by auto
  then obtain m where "pd_mean (map real defect_count) = Some m" "0 \<le> m"
    using mean_bounds [of "map real defect_count" 0] assms by fastforce
  then show ?thesis
    by (simp add: c_chart_limits_def np_sqrt_def)
qed

lemma np_chart_limits_finite:
  assumes "vals \<noteq> []" and "0 < s" and "\<forall>v \<in> set vals. v \<le> nat s"
  shows "\<exists>l. np_chart_limits s vals = Some l"
proof -
  have "\<forall>x \<in> set (map real vals). 0 \<le> x \<and> x \<le> real_of_int s"
    using assms(2,3) by (auto simp: nat_le_iff)
  then obtain m where m: "pd_mean (map real vals) = Some m" "0 \<le> m" "m \<le> real_of_int s"
    using mean_bounds [of "map real vals" 0 "real_of_int s"] assms(1) by fastforce
  let ?p = "m / real_of_int s"
  have s: "0 < real_of_int s" using assms(2) by simp
  have "0 \<le> ?p" "?p \<le> 1"
    using m(2,3) s by simp_all
  then have "0 \<le> ?p * (1 - ?p)"
    by (intro mult_nonneg_nonneg) simp_all
  then have "0 \<le> ?p * (1 - ?p) / real_of_int s"
    using s by (intro divide_nonneg_pos)
  then show ?thesis
    using m(1) s by (simp add: np_chart_limits_def fl_div_def np_sqrt_def not_less [symmetric])
qed

lemma p_chart_limits_finite:
  assumes "p \<noteq> []" and "0 < s" and "\<forall>x \<in> set p. 0 \<le> x \<and> x \<le> 1"
  shows "\<exists>l. p_chart_limits s p = Some l"
proof -
  obtain m where m: "pd_mean p = Some m" "0 \<le> m" "m \<le> 1"
    using mean_bounds [OF assms(1,3)] by auto
  have s: "0 < real_of_int s" using assms(2) by simp
  have "0 \<le> m * (1 - m)" using m(2,3) by simp
  then have "0 \<le> m * (1 - m) / real_of_int s"
    using s by simp
  then show ?thesis
    using m(1) s by (simp add: p_chart_limits_def fl_div_def np_sqrt_def not_less [symmetric])
qed

lemma plot_c_chart_finite:
  assumes "map_of df column = Some xs" and "xs \<noteq> []"
    and "lower_spec \<noteq> None \<or> upper_spec \<noteq> None"
  shows "\<exists>c l. plot_c_chart df column lower_spec upper_spec = Inr c \<and> c_limits c = Some l"
proof -
  have "\<exists>l. c_chart_limits (map (c_chart_count_defects lower_spec upper_spec) xs) = Some l"
    using assms(2) by (intro c_chart_limits_finite) simp
  then show ?thesis
    using assms(1,3) by (auto simp: plot_c_chart_def Let_def)
qed

lemma plot_np_chart_finite:
  assumes "map_of df column = Some xs" and "xs \<noteq> []"
    and "lower_spec \<noteq> None \<or> upper_spec \<noteq> None" and "0 < subgroup_size"
  shows "\<exists>n l. plot_np_chart df column subgroup_size lower_spec upper_spec = Inr n
           \<and> np_limits n = Some l"
proof -
  let ?d = "map (np_chart_is_defective lower_spec upper_spec) xs"
  let ?g = "subgroups subgroup_size ?d"
  have ne: "map sum_list ?g \<noteq> []"
    using subgroups_nonempty [of subgroup_size ?d] assms(2,4) by simp
  have "sum_list g \<le> nat subgroup_size" if "g \<in> set ?g" for g
  proof -
    have "\<forall>x \<in> set g. x \<le> 1"
      using subgroups_member(3) [OF assms(4) that] defective_le_one(1) by auto
    then have "sum_list g \<le> length g" by (rule sum_list_le_length)
    then show ?thesis
      using subgroups_member(1) [OF assms(4) that] by simp
  qed
  then have "\<forall>v \<in> set (map sum_list ?g). v \<le> nat subgroup_size" by auto
  then have "\<exists>l. np_chart_limits subgroup_size (map sum_list ?g) = Some l"
    using ne assms(4) by (intro np_chart_limits_finite)
  then show ?thesis
    using assms(1,3) by (auto simp: plot_np_chart_def Let_def)
qed

lemma map2_same: "map2 F (map f gs) (map h gs) = map (\<lambda>g. F (f g) (h g)) gs"
  by (induction gs) simp_all

lemma plot_p_chart_finite:
  assumes "map_of df column = Some xs" and "xs \<noteq> []"
    and "lower_spec \<noteq> None \<or> upper_spec \<noteq> None" and "0 < subgroup_size"
  shows "\<exists>p l. plot_p_chart df column subgroup_size lower_spec upper_spec = Inr p
           \<and> p_limits p = Some l"
proof -
  let ?d = "map (p_chart_is_defective lower_spec upper_spec) xs"
  let ?g = "subgroups subgroup_size ?d"
  let ?p = "map2 (\<lambda>d c. real d / real c) (map sum_list ?g) (map length ?g)"
  have p: "?p = map (\<lambda>g. real (sum_list g) / real (length g)) ?g"
    by (rule map2_same)
  have ne: "?p \<noteq> []"
    using subgroups_nonempty [of subgroup_size ?d] assms(2,4) by (simp add: p)
  have "0 \<le> real (sum_list g) / real (length g) \<and> real (sum_list g) / real (length g) \<le> 1"
    if "g \<in> set ?g" for g
  proof -
    have "\<forall>x \<in> set g. x \<le> 1"
      using subgroups_member(3) [OF assms(4) that] defective_le_one(2) by auto
    then have "sum_list g \<le> length g" by (rule sum_list_le_length)
    moreover have "0 < length g"
      using subgroups_member(2) [OF assms(4) that] by simp
    ultimately show ?thesis by simp
  qed
  then have "\<forall>x \<in> set ?p. 0 \<le> x \<and> x \<le> 1"
    by (simp add: p)
  then have "\<exists>l. p_chart_limits subgroup_size ?p = Some l"
    using ne assms(4) by (intro p_chart_limits_finite)
  then show ?thesis
    using assms(1,3) by (auto simp: plot_p_chart_def Let_def)
qed

lemma sum_list_dropna_pos:
  assumes "ns \<noteq> []" and "\<forall>n \<in> set ns. \<exists>v. n = Some v \<and> 0 < v"
  shows "0 < sum_list (dropna ns)"
  using assms
proof (induction ns rule: dropna.induct)
  case 1
  then show ?case by simp
next
  case (2 cs)
  then show ?case by simp
next
  case (3 x cs)
  show ?case
  proof (cases "cs = []")
    case True
    with "3.prems" show ?thesis by simp
  next
    case False
    with "3.IH" "3.prems" have "0 < sum_list (dropna cs)" by simp
    with "3.prems" show ?thesis by simp
  qed
qed

lemma plot_u_chart_finite:
  assumes "plot_u_chart df column sample_size_col lower_spec upper_spec = Inr u"
    and "\<forall>n \<in> set (u_sample_size (u_stats u)). \<exists>v. n = Some v \<and> 0 < v"
  shows "\<forall>x \<in> set (u_limits (u_stats u)). x \<noteq> None"
proof -
  from assms(1) obtain defect_count sample_size where
    st: "u_stats u = u_chart_statistics defect_count sample_size"
    by (auto simp: plot_u_chart_def Let_def split: if_splits option.splits)
  have ss: "u_sample_size (u_stats u) = sample_size"
    and lim: "u_limits (u_stats u) =
       map (u_chart_row_limits (u_chart_u_bar defect_count sample_size)) sample_size"
    by (simp_all add: st u_chart_statistics_def Let_def)
  show ?thesis
  proof (cases "sample_size = []")
    case True
    then show ?thesis by (simp add: lim)
  next
    case False
    then have total: "0 < sum_list (dropna sample_size)"
      using assms(2) ss by (intro sum_list_dropna_pos) simp_all
    let ?ub = "real (sum_list defect_count) / sum_list (dropna sample_size)"
    have ub: "u_chart_u_bar defect_count sample_size = Some ?ub" "0 \<le> ?ub"
      using total by (simp_all add: u_chart_u_bar_def fl_div_def)
    have "u_chart_row_limits (Some ?ub) n \<noteq> None" if "n \<in> set sample_size" for n
    proof -
      from that assms(2) ss obtain v where v: "n = Some v" "0 < v" by auto
      have "0 \<le> ?ub / v" using ub(2) v(2) by (rule divide_nonneg_pos)
      then show ?thesis
        using v by (simp add: u_chart_row_limits_def fl_div_def np_sqrt_def not_less [symmetric])
    qed
    then show ?thesis
      by (simp add: lim ub(1))
  qed
qed

text \<open>
  C5, amended. Whenever a call of the c-, np-, p- or u-chart returns and a control limit
  triple it computed is finite, \<open>0 \<le> LCL \<le> CL \<le> UCL\<close> holds, provided
  \<open>subgroup_size\<close> is positive in the np-chart and the sample sizes sum to a positive
  number in the u-chart; in the u-chart this is so for the limits of every row, all around
  the one center line. The limits are finite when the column has a row and a
  specification limit is given (c-chart), when moreover \<open>subgroup_size\<close> is positive
  (np- and p-chart), and in every row of the u-chart when every sample size is positive.
\<close>

theorem control_limits_in_order:
  "(plot_c_chart df column lower_spec upper_spec = Inr c \<and> c_limits c = Some l_c
      \<longrightarrow> limits_in_order l_c)
   \<and> (0 < subgroup_size
      \<and> plot_np_chart df column subgroup_size lower_spec upper_spec = Inr n
      \<and> np_limits n = Some l_np \<longrightarrow> limits_in_order l_np)
   \<and> (plot_p_chart df column subgroup_size lower_spec upper_spec = Inr p
      \<and> p_limits p = Some l_p \<longrightarrow> limits_in_order l_p)
   \<and> (plot_u_chart df column sample_size_col lower_spec upper_spec = Inr u
      \<and> 0 < sum_list (dropna (u_sample_size (u_stats u)))
      \<and> Some l_u \<in> set (u_limits (u_stats u))
      \<longrightarrow> limits_in_order l_u \<and> u_center (u_stats u) = Some (CL l_u))
   \<and> (map_of df column = Some xs \<and> xs \<noteq> [] \<and> (lower_spec \<noteq> None \<or> upper_spec \<noteq> None)
      \<longrightarrow> (\<exists>c l. plot_c_chart df column lower_spec upper_spec = Inr c \<and> c_limits c = Some l)
        \<and> (0 < subgroup_size \<longrightarrow>
             (\<exists>n l. plot_np_chart df column subgroup_size lower_spec upper_spec = Inr n
                \<and> np_limits n = Some l)
           \<and> (\<exists>p l. plot_p_chart df column subgroup_size lower_spec upper_spec = Inr p
                \<and> p_limits p = Some l)))
   \<and> (plot_u_chart df column sample_size_col lower_spec upper_spec = Inr u
      \<and> (\<forall>n \<in> set (u_sample_size (u_stats u)). \<exists>v. n = Some v \<and> 0 < v)
      \<longrightarrow> (\<forall>x \<in> set (u_limits (u_stats u)). x \<noteq> None))"
  using plot_c_chart_limits [of df column lower_spec upper_spec c l_c]
    plot_np_chart_limits [of df column subgroup_size lower_spec upper_spec n l_np]
    plot_p_chart_limits [of df column subgroup_size lower_spec upper_spec p l_p]
    plot_u_chart_limits [of df column sample_size_col lower_spec upper_spec u l_u]
    plot_c_chart_finite [of df column xs lower_spec upper_spec]
    plot_np_chart_finite [of df column xs lower_spec upper_spec subgroup_size]
    plot_p_chart_finite [of df column xs lower_spec upper_spec subgroup_size]
    plot_u_chart_finite [of df column sample_size_col lower_spec upper_spec u]
  by (intro conjI impI; (elim conjE)?; assumption?; simp)

lemma c_chart_example:
  "plot_c_chart [(''x'', [Some 1])] ''x'' (Some 2) None =
     Inr \<lparr>c_defect_count = [1], c_limits = Some \<lparr>LCL = 0, CL = 1, UCL = 4\<rparr>\<rparr>"
  by (simp add: plot_c_chart_def c_chart_count_defects_def py_lt_def c_chart_limits_def
      pd_mean_def fl_div_def np_sqrt_def Let_def)

lemma np_chart_example:
  "plot_np_chart [(''x'', [Some 1, Some 3])] ''x'' 1 (Some 2) None =
     Inr \<lparr>np_values = [1, 0], np_limits = Some \<lparr>LCL = 0, CL = 1 / 2, UCL = 2\<rparr>\<rparr>"
  by (simp add: plot_np_chart_def np_chart_is_defective_def py_lt_def subgroups_one_example
      np_chart_limits_def pd_mean_def fl_div_def np_sqrt_def sqrt_quarter Let_def)

lemma p_chart_example:
  "plot_p_chart [(''x'', [Some 1, Some 3])] ''x'' 1 (Some 2) None =
     Inr \<lparr>p_values = [1, 0], p_limits = Some \<lparr>LCL = 0, CL = 1 / 2, UCL = 2\<rparr>\<rparr>"
  by (simp add: plot_p_chart_def p_chart_is_defective_def py_lt_def subgroups_one_example
      p_chart_limits_def pd_mean_def fl_div_def np_sqrt_def sqrt_quarter Let_def)

lemma u_chart_example:
  "plot_u_chart [(''x'', [Some 1]), (''n'', [Some 1]), (''material_salida'', [Some 7])]
       ''x'' ''n'' (Some 2) None =
     Inr \<lparr>u_stats = \<lparr>u_sample_size = [Some 1], u_values = [Some 1], u_center = Some 1,
                      u_limits = [Some \<lparr>LCL = 0, CL = 1, UCL = 4\<rparr>],
                      u_out_of_control = [False]\<rparr>,
          u_labels = [Some 7]\<rparr>"
  by (simp add: plot_u_chart_def u_chart_count_defects_def py_lt_def set_column_def
      u_chart_add_columns_def u_chart_statistics_def u_chart_u_bar_def u_chart_row_limits_def
      u_chart_out_of_control_def fl_div_def np_sqrt_def Let_def)

theorem control_limits_in_order_witness:
  "plot_c_chart [(''x'', [Some 1])] ''x'' (Some 2) None =
     Inr \<lparr>c_defect_count = [1], c_limits = Some \<lparr>LCL = 0, CL = 1, UCL = 4\<rparr>\<rparr>
   \<and> limits_in_order \<lparr>LCL = 0, CL = 1, UCL = 4\<rparr>
   \<and> (0::int) < 1
   \<and> plot_np_chart [(''x'', [Some 1, Some 3])] ''x'' 1 (Some 2) None =
     Inr \<lparr>np_values = [1, 0], np_limits = Some \<lparr>LCL = 0, CL = 1 / 2, UCL = 2\<rparr>\<rparr>
   \<and> plot_p_chart [(''x'', [Some 1, Some 3])] ''x'' 1 (Some 2) None =
     Inr \<lparr>p_values = [1, 0], p_limits = Some \<lparr>LCL = 0, CL = 1 / 2, UCL = 2\<rparr>\<rparr>
   \<and> limits_in_order \<lparr>LCL = 0, CL = 1 / 2, UCL = 2\<rparr>
   \<and> plot_u_chart [(''x'', [Some 1]), (''n'', [Some 1]), (''material_salida'', [Some 7])]
       ''x'' ''n'' (Some 2) None =
     Inr \<lparr>u_stats = \<lparr>u_sample_size = [Some 1], u_values = [Some 1], u_center = Some 1,
                      u_limits = [Some \<lparr>LCL = 0, CL = 1, UCL = 4\<rparr>],
                      u_out_of_control = [False]\<rparr>,
          u_labels = [Some 7]\<rparr>"
  using control_limits_in_order [where df = "[(''x'', [Some 1])]" and column = "''x''"
      and lower_spec = "Some 2" and upper_spec = None
      and c = "\<lparr>c_defect_count = [1], c_limits = Some \<lparr>LCL = 0, CL = 1, UCL = 4\<rparr>\<rparr>"
      and l_c = "\<lparr>LCL = 0, CL = 1, UCL = 4\<rparr>" and xs = "[Some 1]"]
    control_limits_in_order [where df = "[(''x'', [Some 1, Some 3])]" and column = "''x''"
      and lower_spec = "Some 2" and upper_spec = None and subgroup_size = 1
      and n = "\<lparr>np_values = [1, 0], np_limits = Some \<lparr>LCL = 0, CL = 1 / 2, UCL = 2\<rparr>\<rparr>"
      and l_np = "\<lparr>LCL = 0, CL = 1 / 2, UCL = 2\<rparr>"
      and p = "\<lparr>p_values = [1, 0], p_limits = Some \<lparr>LCL = 0, CL = 1 / 2, UCL = 2\<rparr>\<rparr>"
      and l_p = "\<lparr>LCL = 0, CL = 1 / 2, UCL = 2\<rparr>" and xs = "[Some 1, Some 3]"]
    control_limits_in_order [where
      df = "[(''x'', [Some 1]), (''n'', [Some 1]), (''material_salida'', [Some 7])]"
      and column = "''x''" and lower_spec = "Some 2" and upper_spec = None
      and sample_size_col = "''n''"
      and u = "\<lparr>u_stats = \<lparr>u_sample_size = [Some 1], u_values = [Some 1], u_center = Some 1,
                      u_limits = [Some \<lparr>LCL = 0, CL = 1, UCL = 4\<rparr>],
                      u_out_of_control = [False]\<rparr>,
          u_labels = [Some 7]\<rparr>"
      and l_u = "\<lparr>LCL = 0, CL = 1, UCL = 4\<rparr>"]
    c_chart_example np_chart_example p_chart_example u_chart_example
  by simp

section \<open>The column material\_salida\<close>

lemma map_of_overwrite_same:
  "name \<in> fst ` set df \<Longrightarrow>
     map_of (map (\<lambda>(k', v). if k' = name then (k', xs) else (k', v)) df) name = Some xs"
  by (induction df) auto

lemma set_column_same: "map_of (set_column name xs df) name = Some xs"
proof (cases "name \<in> fst ` set df")
  case True
  then show ?thesis by (simp add: set_column_def map_of_overwrite_same)
next
  case False
  then have "map_of df name = None" by (simp add: map_of_eq_None_iff)
  with False show ?thesis by (simp add: set_column_def map_add_def)
qed

lemma set_column_keeps:
  "map_of df k \<noteq> None \<Longrightarrow> map_of (set_column name xs df) k \<noteq> None"
  by (cases "k = name") (simp_all add: set_column_same set_column_other)

lemma u_chart_add_columns_material:
  "map_of (u_chart_add_columns sample_size stats df) ''material_salida'' =
     map_of df ''material_salida''"
  by (simp add: u_chart_add_columns_def set_column_other)

lemma select_columns_Inr:
  "(\<forall>c \<in> set names. map_of df c \<noteq> None) \<Longrightarrow> \<exists>cols. select_columns df names = Inr cols"
  by (induction names) auto

lemma plot_u_chart_needs_material_salida:
  assumes "map_of df ''material_salida'' = None"
  shows "\<exists>e. plot_u_chart df column sample_size_col lower_spec upper_spec = Inl e"
proof (cases "lower_spec = None \<and> upper_spec = None")
  case True
  then show ?thesis by (simp add: plot_u_chart_def)
next
  case spec: False
  show ?thesis
  proof (cases "map_of df column")
    case None
    with spec show ?thesis by (simp add: plot_u_chart_def)
  next
    case (Some xs)
    let ?df1 = "set_column ''defect_count''
      (map (\<lambda>d. Some (real d)) (map (u_chart_count_defects lower_spec upper_spec) xs)) df"
    have m: "map_of (u_chart_add_columns ns st ?df1) ''material_salida'' = None" for ns st
      using assms by (simp add: u_chart_add_columns_material set_column_other)
    show ?thesis
    proof (cases "map_of ?df1 sample_size_col")
      case None
      with spec Some show ?thesis by (simp add: plot_u_chart_def Let_def)
    next
      case ns: (Some ns)
      with spec Some m show ?thesis by (simp add: plot_u_chart_def Let_def)
    qed
  qed
qed

lemma plot_u_chart_material_salida_KeyError:
  assumes "map_of df ''material_salida'' = None"
    and "lower_spec \<noteq> None \<or> upper_spec \<noteq> None"
    and "map_of df column \<noteq> None" and "map_of df sample_size_col \<noteq> None"
  shows "plot_u_chart df column sample_size_col lower_spec upper_spec =
           Inl (KeyError ''material_salida'')"
proof -
  from assms(3) obtain xs where xs: "map_of df column = Some xs" by auto
  let ?df1 = "set_column ''defect_count''
      (map (\<lambda>d. Some (real d)) (map (u_chart_count_defects lower_spec upper_spec) xs)) df"
  have "map_of ?df1 sample_size_col \<noteq> None"
    using assms(4) by (rule set_column_keeps)
  then obtain ns where ns: "map_of ?df1 sample_size_col = Some ns" by auto
  have m: "map_of (u_chart_add_columns ns st ?df1) ''material_salida'' = None" for st
    using assms(1) by (simp add: u_chart_add_columns_material set_column_other)
  have spec: "\<not> (lower_spec = None \<and> upper_spec = None)"
    using assms(2) by simp
  show ?thesis
    using spec xs ns m by (simp add: plot_u_chart_def Let_def)
qed

lemma plot_t2_chart_needs_material_salida:
  assumes "map_of df ''material_salida'' = None"
  shows "\<exists>e. plot_t2_chart rest df numeric_columns = Inl e"
  using assms by (cases "select_columns df numeric_columns") (simp_all add: plot_t2_chart_def)

lemma plot_t2_chart_material_salida_KeyError:
  assumes "map_of df ''material_salida'' = None"
    and "\<forall>c \<in> set numeric_columns. map_of df c \<noteq> None"
  shows "plot_t2_chart rest df numeric_columns = Inl (KeyError ''material_salida'')"
proof -
  from assms(2) obtain cols where "select_columns df numeric_columns = Inr cols"
    using select_columns_Inr by blast
  with assms(1) show ?thesis by (simp add: plot_t2_chart_def)
qed

text \<open>
  C9. The u-chart and the T-squared chart read the column \<open>material_salida\<close>, which no
  parameter names. On a DataFrame without a column of that name neither call ever returns
  a chart; and when the limits are given and every column named by a parameter exists, the
  error is the KeyError of \<open>material_salida\<close> itself.
\<close>

theorem material_salida_required:
  "map_of df ''material_salida'' = None \<longrightarrow>
     (\<exists>e. plot_u_chart df column sample_size_col lower_spec upper_spec = Inl e)
   \<and> ((lower_spec \<noteq> None \<or> upper_spec \<noteq> None)
        \<and> map_of df column \<noteq> None \<and> map_of df sample_size_col \<noteq> None
      \<longrightarrow> plot_u_chart df column sample_size_col lower_spec upper_spec =
            Inl (KeyError ''material_salida''))
   \<and> (\<exists>e. plot_t2_chart statistics_and_figure df numeric_columns = Inl e)
   \<and> ((\<forall>c \<in> set numeric_columns. map_of df c \<noteq> None)
      \<longrightarrow> plot_t2_chart statistics_and_figure df numeric_columns =
            Inl (KeyError ''material_salida''))"
proof
  assume m: "map_of df ''material_salida'' = None"
  show "(\<exists>e. plot_u_chart df column sample_size_col lower_spec upper_spec = Inl e)
   \<and> ((lower_spec \<noteq> None \<or> upper_spec \<noteq> None)
        \<and> map_of df column \<noteq> None \<and> map_of df sample_size_col \<noteq> None
      \<longrightarrow> plot_u_chart df column sample_size_col lower_spec upper_spec =
            Inl (KeyError ''material_salida''))
   \<and> (\<exists>e. plot_t2_chart statistics_and_figure df numeric_columns = Inl e)
   \<and> ((\<forall>c \<in> set numeric_columns. map_of df c \<noteq> None)
      \<longrightarrow> plot_t2_chart statistics_and_figure df numeric_columns =
            Inl (KeyError ''material_salida''))"
    using plot_u_chart_needs_material_salida [OF m, of column sample_size_col lower_spec upper_spec]
      plot_u_chart_material_salida_KeyError [OF m, of lower_spec upper_spec column sample_size_col]
      plot_t2_chart_needs_material_salida [OF m, of statistics_and_figure numeric_columns]
      plot_t2_chart_material_salida_KeyError [OF m, of numeric_columns statistics_and_figure]
    by simp
qed

theorem material_salida_required_witness:
  "map_of [(''x'', [Some (1::real)]), (''n'', [Some 2])] ''material_salida'' = None
   \<and> map_of [(''x'', [Some (1::real)]), (''n'', [Some 2])] ''x'' \<noteq> None
   \<and> map_of [(''x'', [Some (1::real)]), (''n'', [Some 2])] ''n'' \<noteq> None
   \<and> plot_u_chart [(''x'', [Some 1]), (''n'', [Some 2])] ''x'' ''n'' None (Some 5) =
       Inl (KeyError ''material_salida'')
   \<and> plot_t2_chart (\<lambda>X labels. Inr X) [(''x'', [Some 1]), (''n'', [Some 2])] [''x'', ''n''] =
       Inl (KeyError ''material_salida'')"
  using material_salida_required [of "[(''x'', [Some 1]), (''n'', [Some 2])]" "''x''" "''n''"
      None "Some 5" "\<lambda>X labels. Inr X" "[''x'', ''n'']"]
  by simp

section \<open>Moving ranges of the I-MR chart\<close>

lemma length_np_diff: "length (np_diff xs) = length xs - 1"
  by (simp add: np_diff_def)

lemma nth_np_diff:
  assumes "i < length xs - 1"
  shows "np_diff xs ! i = xs ! (i + 1) - xs ! i"
proof -
  have "i < length (tl xs)" and "i < length xs"
    using assms by simp_all
  then show ?thesis
    by (simp add: np_diff_def nth_tl)
qed

lemma plot_imr_chart_too_short:
  assumes "map_of df value_column = Some data_series"
    and "length (dropna data_series) < 2"
  shows "plot_imr_chart df value_column grouping_column =
           Inl (ValueError ''At least 2 data points required for Moving Range calculation'')"
  using assms by (simp add: plot_imr_chart_def Let_def)

lemma plot_imr_chart_returns:
  assumes "map_of df value_column = Some data_series"
    and "2 \<le> length (dropna data_series)"
    and "map_of df grouping_column \<noteq> None"
  shows "\<exists>chart. plot_imr_chart df value_column grouping_column = Inr chart
           \<and> imr_data chart = dropna data_series
           \<and> imr_moving_ranges chart = map abs (np_diff (dropna data_series))"
proof -
  from assms(3) obtain labels where "map_of df grouping_column = Some labels" by auto
  with assms(1,2) show ?thesis
    by (simp add: plot_imr_chart_def Let_def)
qed

text \<open>
  C7. With the value column present and \<open>n\<close> of its values not NaN: for \<open>n \<ge> 2\<close> (and
  the grouping column present) the call returns a chart whose moving-range sequence has
  length \<open>n - 1\<close> and holds \<open>|x[i+1] - x[i]|\<close> at every \<open>i\<close>; for \<open>n < 2\<close> the call
  raises its ValueError, before the grouping column is looked at, and returns no chart.
\<close>

theorem imr_moving_range:
  "map_of df value_column = Some data_series \<longrightarrow>
     (2 \<le> length (dropna data_series) \<and> map_of df grouping_column \<noteq> None \<longrightarrow>
        (\<exists>chart. plot_imr_chart df value_column grouping_column = Inr chart
           \<and> imr_data chart = dropna data_series
           \<and> length (imr_moving_ranges chart) = length (dropna data_series) - 1
           \<and> (\<forall>i < length (dropna data_series) - 1.
                imr_moving_ranges chart ! i =
                  \<bar>dropna data_series ! (i + 1) - dropna data_series ! i\<bar>)))
   \<and> (length (dropna data_series) < 2 \<longrightarrow>
        plot_imr_chart df value_column grouping_column =
          Inl (ValueError ''At least 2 data points required for Moving Range calculation''))"
proof (intro impI conjI)
  assume col: "map_of df value_column = Some data_series"
    and "2 \<le> length (dropna data_series) \<and> map_of df grouping_column \<noteq> None"
  then obtain chart where
    c: "plot_imr_chart df value_column grouping_column = Inr chart"
      "imr_data chart = dropna data_series"
      "imr_moving_ranges chart = map abs (np_diff (dropna data_series))"
    using plot_imr_chart_returns by blast
  have "\<forall>i < length (dropna data_series) - 1.
          imr_moving_ranges chart ! i =
            \<bar>dropna data_series ! (i + 1) - dropna data_series ! i\<bar>"
    by (simp add: c(3) length_np_diff nth_np_diff)
  then show "\<exists>chart. plot_imr_chart df value_column grouping_column = Inr chart
           \<and> imr_data chart = dropna data_series
           \<and> length (imr_moving_ranges chart) = length (dropna data_series) - 1
           \<and> (\<forall>i < length (dropna data_series) - 1.
                imr_moving_ranges chart ! i =
                  \<bar>dropna data_series ! (i + 1) - dropna data_series ! i\<bar>)"
    using c by (simp add: length_np_diff)
next
  assume "map_of df value_column = Some data_series" "length (dropna data_series) < 2"
  then show "plot_imr_chart df value_column grouping_column =
          Inl (ValueError ''At least 2 data points required for Moving Range calculation'')"
    by (rule plot_imr_chart_too_short)
qed

theorem imr_moving_range_witness:
  "map_of [(''v'', [Some 1, None, Some 4, Some 2]), (''g'', [Some 7, Some 7, Some 8, Some 8])] ''v''
     = Some [Some (1::real), None, Some 4, Some 2]
   \<and> 2 \<le> length (dropna [Some 1, None, Some 4, Some 2])
   \<and> (\<exists>chart. plot_imr_chart
         [(''v'', [Some 1, None, Some 4, Some 2]), (''g'', [Some 7, Some 7, Some 8, Some 8])]
         ''v'' ''g'' = Inr chart
        \<and> imr_data chart = [1, 4, 2]
        \<and> length (imr_moving_ranges chart) = 2
        \<and> imr_moving_ranges chart ! 0 = 3 \<and> imr_moving_ranges chart ! 1 = 2)
   \<and> length (dropna [Some 5, None]) < 2
   \<and> plot_imr_chart [(''v'', [Some 5, None])] ''v'' ''g'' =
       Inl (ValueError ''At least 2 data points required for Moving Range calculation'')"
proof -
  have "\<forall>i<2. i = 0 \<or> i = (1::nat)" by auto
  then show ?thesis
    using imr_moving_range [of
        "[(''v'', [Some 1, None, Some 4, Some 2]), (''g'', [Some 7, Some 7, Some 8, Some 8])]"
        "''v''" "[Some 1, None, Some 4, Some 2]" "''g''"]
      imr_moving_range [of "[(''v'', [Some 5, None])]" "''v''" "[Some 5, None]" "''g''"]
    by (simp add: numeral_2_eq_2 less_Suc_eq, blast)
qed

section \<open>Subgroups of the X-bar charts\<close>

lemma length_reshape: "length (reshape k n xs) = k"
  by (induction k arbitrary: xs) auto

lemma nth_reshape: "i < k \<Longrightarrow> reshape k n xs ! i = take n (drop (i * n) xs)"
proof (induction k arbitrary: xs i)
  case 0
  then show ?case by simp
next
  case (Suc k)
  show ?case
  proof (cases i)
    case 0
    then show ?thesis by simp
  next
    case (Suc j)
    with Suc.prems have "j < k" by simp
    then have "reshape k n (drop n xs) ! j = take n (drop (j * n) (drop n xs))"
      by (rule Suc.IH)
    then show ?thesis
      using Suc by (simp add: add.commute)
  qed
qed

lemma group_of_prefix:
  assumes "i < k"
  shows "take n (drop (i * n) (take (k * n) xs)) = take n (drop (i * n) xs)"
proof -
  have "Suc i \<le> k" using assms by simp
  then have "Suc i * n \<le> k * n" by (rule mult_le_mono1)
  then have "n \<le> k * n - i * n" by simp
  then show ?thesis
    by (simp add: drop_take min_absorb1)
qed

lemma group_length:
  assumes "i < k" and "k * n \<le> length xs"
  shows "length (take n (drop (i * n) xs)) = n"
proof -
  have "Suc i \<le> k" using assms(1) by simp
  then have "Suc i * n \<le> k * n" by (rule mult_le_mono1)
  with assms(2) have "i * n + n \<le> length xs" by simp
  then show ?thesis by simp
qed

lemma xbars_of_groups:
  assumes "i < k" and "k * n \<le> length xs"
  shows "map np_mean (reshape k n (take (k * n) xs)) ! i
           = sum_list (take n (drop (i * n) xs)) / real n"
proof -
  have "map np_mean (reshape k n (take (k * n) xs)) ! i
          = np_mean (take n (drop (i * n) xs))"
    using assms(1) by (simp add: length_reshape nth_reshape group_of_prefix)
  also have "\<dots> = sum_list (take n (drop (i * n) xs)) / real n"
    unfolding np_mean_def group_length [OF assms] ..
  finally show ?thesis .
qed

lemma lookup3_supported:
  assumes "2 \<le> s" and "s \<le> 10"
  shows "lookup3 A2_table D3_table D4_table s \<noteq> None"
    and "lookup3 A3_table B3_table B4_table s \<noteq> None"
proof -
  from assms have "s = 2 \<or> s = 3 \<or> s = 4 \<or> s = 5 \<or> s = 6 \<or> s = 7 \<or> s = 8 \<or> s = 9 \<or> s = 10"
    by arith
  then show "lookup3 A2_table D3_table D4_table s \<noteq> None"
    and "lookup3 A3_table B3_table B4_table s \<noteq> None"
    by (elim disjE; simp add: lookup3_def A2_table_def D3_table_def D4_table_def
        A3_table_def B3_table_def B4_table_def)+
qed

lemma lookup3_unsupported:
  assumes "s < 2 \<or> 10 < s"
  shows "lookup3 A2_table D3_table D4_table s = None"
    and "lookup3 A3_table B3_table B4_table s = None"
  using assms by (auto simp: lookup3_def A2_table_def A3_table_def)

lemma subgroup_count:
  assumes "0 < s" and "s \<le> int m"
  shows "0 < int m div s" and "nat (int m div s) = m div nat s"
    and "nat (int m div s * s) = (m div nat s) * nat s"
proof -
  show pos: "0 < int m div s"
    using assms by (simp add: pos_imp_zdiv_pos_iff)
  show k: "nat (int m div s) = m div nat s"
    by (simp add: nat_div_distrib)
  show "nat (int m div s * s) = (m div nat s) * nat s"
    using pos k by (simp add: nat_mult_distrib)
qed

lemma xbar_r_unsupported:
  assumes "map_of df value_column = Some data_series"
    and "map_of df grouping_column \<noteq> None"
    and "s < 2 \<or> 10 < s" and "0 < s" and "s \<le> int (length (dropna data_series))"
  shows "xbar_r_chart_plotly df value_column grouping_column s =
           Inl (ValueError ''Subgroup size {subgroup_size} not supported. Valid sizes: 2-10'')"
proof -
  from assms(2) obtain labels where g: "map_of df grouping_column = Some labels" by auto
  have k: "0 < int (length (dropna data_series)) div s"
    using assms(4,5) by (rule subgroup_count)
  show ?thesis
    using assms(1,4) g k lookup3_unsupported(1) [OF assms(3)]
    by (simp add: xbar_r_chart_plotly_def Let_def)
qed

lemma xbar_s_unsupported:
  assumes "map_of df value_column = Some data_series"
    and "map_of df grouping_column \<noteq> None"
    and "s < 2 \<or> 10 < s" and "0 < s" and "s \<le> int (length (dropna data_series))"
  shows "plot_xbar_s_chart df value_column grouping_column s =
           Inl (ValueError ''Subgroup size {subgroup_size} not supported. Valid sizes: 2-10'')"
proof -
  from assms(2) obtain labels where g: "map_of df grouping_column = Some labels" by auto
  have k: "0 < int (length (dropna data_series)) div s"
    using assms(4,5) by (rule subgroup_count)
  show ?thesis
    using assms(1,4) g k lookup3_unsupported(2) [OF assms(3)]
    by (simp add: plot_xbar_s_chart_def Let_def)
qed

lemma xbar_r_supported:
  assumes "map_of df value_column = Some data_series"
    and "map_of df grouping_column \<noteq> None"
    and "2 \<le> s" and "s \<le> 10" and "s \<le> int (length (dropna data_series))"
  shows "\<exists>chart. xbar_r_chart_plotly df value_column grouping_column s = Inr chart
           \<and> xr_xbars chart =
               map np_mean (reshape (length (dropna data_series) div nat s) (nat s)
                 (take ((length (dropna data_series) div nat s) * nat s) (dropna data_series)))"
proof -
  from assms(2) obtain labels where g: "map_of df grouping_column = Some labels" by auto
  have s: "0 < s" using assms(3) by simp
  note k = subgroup_count [OF s assms(5)]
  from lookup3_supported(1) [OF assms(3,4)] obtain A2 D3 D4
    where c: "lookup3 A2_table D3_table D4_table s = Some (A2, D3, D4)"
    by auto
  show ?thesis
    using assms(1) s g k c
    by (simp add: xbar_r_chart_plotly_def Let_def)
qed

lemma xbar_s_supported:
  assumes "map_of df value_column = Some data_series"
    and "map_of df grouping_column \<noteq> None"
    and "2 \<le> s" and "s \<le> 10" and "s \<le> int (length (dropna data_series))"
  shows "\<exists>chart. plot_xbar_s_chart df value_column grouping_column s = Inr chart
           \<and> xs_xbars chart =
               map np_mean (reshape (length (dropna data_series) div nat s) (nat s)
                 (take ((length (dropna data_series) div nat s) * nat s) (dropna data_series)))"
proof -
  from assms(2) obtain labels where g: "map_of df grouping_column = Some labels" by auto
  have s: "0 < s" using assms(3) by simp
  note k = subgroup_count [OF s assms(5)]
  from lookup3_supported(2) [OF assms(3,4)] obtain A3 B3 B4
    where c: "lookup3 A3_table B3_table B4_table s = Some (A3, B3, B4)"
    by auto
  show ?thesis
    using assms(1) s g k c
    by (simp add: plot_xbar_s_chart_def Let_def)
qed

lemma xbars_shape:
  fixes data :: "real list"
  assumes "xbars = map np_mean (reshape (length data div n) n (take ((length data div n) * n) data))"
  shows "length xbars = length data div n
     \<and> (\<forall>i < length data div n. xbars ! i = sum_list (take n (drop (i * n) data)) / real n)"
  using assms by (simp add: length_reshape xbars_of_groups del: nth_map)

lemma xbar_zero_size:
  assumes "map_of df value_column = Some data_series"
  shows "xbar_r_chart_plotly df value_column grouping_column 0 = Inl ZeroDivisionError"
    and "plot_xbar_s_chart df value_column grouping_column 0 = Inl ZeroDivisionError"
  using assms by (simp_all add: xbar_r_chart_plotly_def plot_xbar_s_chart_def Let_def)

lemma xbar_negative_size:
  assumes "map_of df value_column = Some data_series" and "s < 0"
  shows "\<exists>msg. xbar_r_chart_plotly df value_column grouping_column s = Inl (ValueError msg)"
    and "\<exists>msg. plot_xbar_s_chart df value_column grouping_column s = Inl (ValueError msg)"
proof -
  have "int (length (dropna data_series)) div s \<le> 0"
    using assms(2) by (simp add: div_nonneg_neg_le0)
  then show "\<exists>msg. xbar_r_chart_plotly df value_column grouping_column s = Inl (ValueError msg)"
    and "\<exists>msg. plot_xbar_s_chart df value_column grouping_column s = Inl (ValueError msg)"
    using assms
    by (auto simp: xbar_r_chart_plotly_def plot_xbar_s_chart_def Let_def)
qed

text \<open>
  C1. With the value column and the grouping column present and \<open>m\<close> values of the value
  column not NaN: for a \<open>subgroup_size\<close> outside 2 to 10 of which one complete subgroup
  exists (\<open>0 < subgroup_size \<le> m\<close>), both X-bar charts raise the ValueError of the
  unsupported size; for a \<open>subgroup_size\<close> \<open>s\<close> from 2 to 10 with \<open>s \<le> m\<close> both return a
  chart whose \<open>xbars\<close> has length \<open>m // s\<close> and holds at \<open>i\<close> the mean of the values
  \<open>i * s, \<dots>, i * s + s - 1\<close>, so that the last \<open>m mod s\<close> values are in no subgroup.
  Beyond the claim: a negative size raises a ValueError too, and the size zero raises
  ZeroDivisionError.
\<close>

theorem xbar_subgroup_size:
  "map_of df value_column = Some data_series \<and> map_of df grouping_column \<noteq> None \<longrightarrow>
     ((subgroup_size < 2 \<or> 10 < subgroup_size) \<and> 0 < subgroup_size
        \<and> subgroup_size \<le> int (length (dropna data_series)) \<longrightarrow>
          xbar_r_chart_plotly df value_column grouping_column subgroup_size =
            Inl (ValueError ''Subgroup size {subgroup_size} not supported. Valid sizes: 2-10'')
        \<and> plot_xbar_s_chart df value_column grouping_column subgroup_size =
            Inl (ValueError ''Subgroup size {subgroup_size} not supported. Valid sizes: 2-10''))
   \<and> (2 \<le> subgroup_size \<and> subgroup_size \<le> 10
        \<and> subgroup_size \<le> int (length (dropna data_series)) \<longrightarrow>
          (\<exists>chart. xbar_r_chart_plotly df value_column grouping_column subgroup_size = Inr chart
             \<and> length (xr_xbars chart) = length (dropna data_series) div nat subgroup_size
             \<and> (\<forall>i < length (dropna data_series) div nat subgroup_size.
                  xr_xbars chart ! i =
                    sum_list (take (nat subgroup_size)
                      (drop (i * nat subgroup_size) (dropna data_series)))
                    / real (nat subgroup_size)))
        \<and> (\<exists>chart. plot_xbar_s_chart df value_column grouping_column subgroup_size = Inr chart
             \<and> length (xs_xbars chart) = length (dropna data_series) div nat subgroup_size
             \<and> (\<forall>i < length (dropna data_series) div nat subgroup_size.
                  xs_xbars chart ! i =
                    sum_list (take (nat subgroup_size)
                      (drop (i * nat subgroup_size) (dropna data_series)))
                    / real (nat subgroup_size))))
   \<and> (subgroup_size < 0 \<longrightarrow>
          (\<exists>msg. xbar_r_chart_plotly df value_column grouping_column subgroup_size =
             Inl (ValueError msg))
        \<and> (\<exists>msg. plot_xbar_s_chart df value_column grouping_column subgroup_size =
             Inl (ValueError msg)))
   \<and> (subgroup_size = 0 \<longrightarrow>
          xbar_r_chart_plotly df value_column grouping_column subgroup_size =
            Inl ZeroDivisionError
        \<and> plot_xbar_s_chart df value_column grouping_column subgroup_size =
            Inl ZeroDivisionError)"
proof (intro impI)
  assume "map_of df value_column = Some data_series \<and> map_of df grouping_column \<noteq> None"
  then have col: "map_of df value_column = Some data_series"
    and g: "map_of df grouping_column \<noteq> None"
    by simp_all
  let ?m = "length (dropna data_series)"
  have unsupported:
    "xbar_r_chart_plotly df value_column grouping_column subgroup_size =
       Inl (ValueError ''Subgroup size {subgroup_size} not supported. Valid sizes: 2-10'')
     \<and> plot_xbar_s_chart df value_column grouping_column subgroup_size =
       Inl (ValueError ''Subgroup size {subgroup_size} not supported. Valid sizes: 2-10'')"
    if "(subgroup_size < 2 \<or> 10 < subgroup_size) \<and> 0 < subgroup_size
        \<and> subgroup_size \<le> int ?m"
    using that xbar_r_unsupported [OF col g] xbar_s_unsupported [OF col g] by simp
  have supported:
    "(\<exists>chart. xbar_r_chart_plotly df value_column grouping_column subgroup_size = Inr chart
        \<and> length (xr_xbars chart) = ?m div nat subgroup_size
        \<and> (\<forall>i < ?m div nat subgroup_size.
              xr_xbars chart ! i =
                sum_list (take (nat subgroup_size)
                  (drop (i * nat subgroup_size) (dropna data_series)))
                / real (nat subgroup_size)))
     \<and> (\<exists>chart. plot_xbar_s_chart df value_column grouping_column subgroup_size = Inr chart
        \<and> length (xs_xbars chart) = ?m div nat subgroup_size
        \<and> (\<forall>i < ?m div nat subgroup_size.
              xs_xbars chart ! i =
                sum_list (take (nat subgroup_size)
                  (drop (i * nat subgroup_size) (dropna data_series)))
                / real (nat subgroup_size)))"
    if "2 \<le> subgroup_size \<and> subgroup_size \<le> 10 \<and> subgroup_size \<le> int ?m"
  proof -
    from that obtain r where
      r: "xbar_r_chart_plotly df value_column grouping_column subgroup_size = Inr r"
         "xr_xbars r = map np_mean (reshape (?m div nat subgroup_size) (nat subgroup_size)
            (take ((?m div nat subgroup_size) * nat subgroup_size) (dropna data_series)))"
      using xbar_r_supported [OF col g, of subgroup_size] by auto
    from that obtain c where
      c: "plot_xbar_s_chart df value_column grouping_column subgroup_size = Inr c"
         "xs_xbars c = map np_mean (reshape (?m div nat subgroup_size) (nat subgroup_size)
            (take ((?m div nat subgroup_size) * nat subgroup_size) (dropna data_series)))"
      using xbar_s_supported [OF col g, of subgroup_size] by auto
    show ?thesis
      using r(1) c(1) xbars_shape [OF r(2)] xbars_shape [OF c(2)] by simp
  qed
  show "((subgroup_size < 2 \<or> 10 < subgroup_size) \<and> 0 < subgroup_size
        \<and> subgroup_size \<le> int (length (dropna data_series)) \<longrightarrow>
          xbar_r_chart_plotly df value_column grouping_column subgroup_size =
            Inl (ValueError ''Subgroup size {subgroup_size} not supported. Valid sizes: 2-10'')
        \<and> plot_xbar_s_chart df value_column grouping_column subgroup_size =
            Inl (ValueError ''Subgroup size {subgroup_size} not supported. Valid sizes: 2-10''))
   \<and> (2 \<le> subgroup_size \<and> subgroup_size \<le> 10
        \<and> subgroup_size \<le> int (length (dropna data_series)) \<longrightarrow>
          (\<exists>chart. xbar_r_chart_plotly df value_column grouping_column subgroup_size = Inr chart
             \<and> length (xr_xbars chart) = length (dropna data_series) div nat subgroup_size
             \<and> (\<forall>i < length (dropna data_series) div nat subgroup_size.
                  xr_xbars chart ! i =
                    sum_list (take (nat subgroup_size)
                      (drop (i * nat subgroup_size) (dropna data_series)))
                    / real (nat subgroup_size)))
        \<and> (\<exists>chart. plot_xbar_s_chart df value_column grouping_column subgroup_size = Inr chart
             \<and> length (xs_xbars chart) = length (dropna data_series) div nat subgroup_size
             \<and> (\<forall>i < length (dropna data_series) div nat subgroup_size.
                  xs_xbars chart ! i =
                    sum_list (take (nat subgroup_size)
                      (drop (i * nat subgroup_size) (dropna data_series)))
                    / real (nat subgroup_size))))
   \<and> (subgroup_size < 0 \<longrightarrow>
          (\<exists>msg. xbar_r_chart_plotly df value_column grouping_column subgroup_size =
             Inl (ValueError msg))
        \<and> (\<exists>msg. plot_xbar_s_chart df value_column grouping_column subgroup_size =
             Inl (ValueError msg)))
   \<and> (subgroup_size = 0 \<longrightarrow>
          xbar_r_chart_plotly df value_column grouping_column subgroup_size =
            Inl ZeroDivisionError
        \<and> plot_xbar_s_chart df value_column grouping_column subgroup_size =
            Inl ZeroDivisionError)"
    using unsupported supported
      xbar_negative_size [OF col, of subgroup_size grouping_column]
      xbar_zero_size [OF col, of grouping_column]
    by (intro conjI impI) simp_all
qed

theorem xbar_subgroup_size_witness:
  "map_of [(''v'', [Some 1, Some 3, None, Some 5, Some 7, Some 9]),
           (''g'', [Some 1, Some 1, Some 1, Some 2, Some 2, Some 2])] ''v''
     = Some [Some (1::real), Some 3, None, Some 5, Some 7, Some 9]
   \<and> (2::int) \<le> int (length (dropna [Some 1, Some 3, None, Some 5, Some 7, Some 9]))
   \<and> xbar_r_chart_plotly
        [(''v'', [Some 1, Some 3, None, Some 5, Some 7, Some 9]),
         (''g'', [Some 1, Some 1, Some 1, Some 2, Some 2, Some 2])] ''v'' ''g'' 1
       = Inl (ValueError ''Subgroup size {subgroup_size} not supported. Valid sizes: 2-10'')
   \<and> plot_xbar_s_chart
        [(''v'', [Some 1, Some 3, None, Some 5, Some 7, Some 9]),
         (''g'', [Some 1, Some 1, Some 1, Some 2, Some 2, Some 2])] ''v'' ''g'' 1
       = Inl (ValueError ''Subgroup size {subgroup_size} not supported. Valid sizes: 2-10'')
   \<and> (\<exists>chart. xbar_r_chart_plotly
          [(''v'', [Some 1, Some 3, None, Some 5, Some 7, Some 9]),
           (''g'', [Some 1, Some 1, Some 1, Some 2, Some 2, Some 2])] ''v'' ''g'' 2 = Inr chart
        \<and> length (xr_xbars chart) = 2 \<and> xr_xbars chart ! 0 = 2 \<and> xr_xbars chart ! 1 = 6)
   \<and> (\<exists>chart. plot_xbar_s_chart
          [(''v'', [Some 1, Some 3, None, Some 5, Some 7, Some 9]),
           (''g'', [Some 1, Some 1, Some 1, Some 2, Some 2, Some 2])] ''v'' ''g'' 2 = Inr chart
        \<and> length (xs_xbars chart) = 2 \<and> xs_xbars chart ! 0 = 2 \<and> xs_xbars chart ! 1 = 6)"
proof -
  let ?df = "[(''v'', [Some (1::real), Some 3, None, Some 5, Some 7, Some 9]),
              (''g'', [Some 1, Some 1, Some 1, Some 2, Some 2, Some 2])]"
  let ?col = "[Some (1::real), Some 3, None, Some 5, Some 7, Some 9]"
  have col: "map_of ?df ''v'' = Some ?col \<and> map_of ?df ''g'' \<noteq> None"
    by simp
  have m: "length (dropna ?col) = 5" by simp
  note one = xbar_subgroup_size [of ?df "''v''" ?col "''g''" 1]
  note two = xbar_subgroup_size [of ?df "''v''" ?col "''g''" 2]
  from one col have unsupported:
    "xbar_r_chart_plotly ?df ''v'' ''g'' 1
       = Inl (ValueError ''Subgroup size {subgroup_size} not supported. Valid sizes: 2-10'')"
    "plot_xbar_s_chart ?df ''v'' ''g'' 1
       = Inl (ValueError ''Subgroup size {subgroup_size} not supported. Valid sizes: 2-10'')"
    by simp_all
  from two col m obtain r where
    r: "xbar_r_chart_plotly ?df ''v'' ''g'' 2 = Inr r" "length (xr_xbars r) = 2"
      "\<forall>i<2. xr_xbars r ! i = sum_list (take 2 (drop (i * 2) [1, 3, 5, 7, 9])) / 2"
    by auto
  from two col m obtain c where
    c: "plot_xbar_s_chart ?df ''v'' ''g'' 2 = Inr c" "length (xs_xbars c) = 2"
      "\<forall>i<2. xs_xbars c ! i = sum_list (take 2 (drop (i * 2) [1, 3, 5, 7, 9])) / 2"
    by auto
  have "xr_xbars r ! 0 = 2" "xr_xbars r ! 1 = 6" "xs_xbars c ! 0 = 2" "xs_xbars c ! 1 = 6"
    using r(3) [rule_format, of 0] r(3) [rule_format, of 1]
      c(3) [rule_format, of 0] c(3) [rule_format, of 1]
    by simp_all
  then show ?thesis
    using col m unsupported r(1,2) c(1,2) by simp
qed

section \<open>The EWMA recursion\<close>















section \<open>The ECDF sequence\<close>

lemma length_ecdf_values: "length (ecdf_values n) = n"
  by (simp add: ecdf_values_def)

lemma nth_ecdf_values: "i < n \<Longrightarrow> ecdf_values n ! i = real (i + 1) / real n"
  by (simp add: ecdf_values_def nth_map_upt add.commute del: upt_Suc)

lemma ecdf_values_shape:
  assumes "0 < n"
  shows "length (ecdf_values n) = n"
    and "ecdf_values n ! 0 = 1 / real n"
    and "0 < ecdf_values n ! 0"
    and "\<forall>i. i + 1 < n \<longrightarrow> ecdf_values n ! (i + 1) - ecdf_values n ! i = 1 / real n"
    and "sorted (ecdf_values n)"
    and "last (ecdf_values n) = 1"
proof -
  show len: "length (ecdf_values n) = n" by (rule length_ecdf_values)
  show first: "ecdf_values n ! 0 = 1 / real n"
    using assms by (simp add: nth_ecdf_values)
  show "0 < ecdf_values n ! 0"
    using assms first by simp
  show "\<forall>i. i + 1 < n \<longrightarrow> ecdf_values n ! (i + 1) - ecdf_values n ! i = 1 / real n"
    by (simp add: nth_ecdf_values diff_divide_distrib [symmetric])
  show "sorted (ecdf_values n)"
    unfolding sorted_iff_nth_mono
    using assms by (simp add: length_ecdf_values nth_ecdf_values divide_right_mono)
  have "ecdf_values n \<noteq> []"
    using assms len by auto
  then have "last (ecdf_values n) = ecdf_values n ! (n - 1)"
    by (simp add: last_conv_nth len)
  then show "last (ecdf_values n) = 1"
    using assms by (simp add: nth_ecdf_values)
qed

lemma length_dropna_le: "length (dropna xs) \<le> length xs"
  by (induction xs rule: dropna.induct) simp_all

lemma length_np_sort_cells: "length (np_sort_cells xs) = length xs"
  using length_dropna_le [of xs] by (simp add: np_sort_cells_def)

lemma cumulative_error_distribution_ecdf:
  assumes "plot_cumulative_error_distribution model feature_names data target_name = Inr chart"
    and "map_of data target_name = Some y_true"
  shows "ced_ecdf chart = ecdf_values (length y_true)"
    and "length (ced_sorted_residuals chart) = length y_true"
  using assms
  by (auto simp: plot_cumulative_error_distribution_def Let_def length_np_sort_cells
      split: sum.splits)

lemma plot_ecdf_values:
  assumes "map_of data numeric_col = Some col"
  shows "plot_ecdf data numeric_col =
           Inr \<lparr>ecdf_x = data, ecdf_y = ecdf_values (df_size data)\<rparr>"
  using assms by (simp add: plot_ecdf_def Let_def)

lemma ecdf_values_4: "ecdf_values 4 = [1 / 4, 1 / 2, 3 / 4, 1]"
proof -
  have "[1..<5] = [1, 2, 3, 4 :: nat]" by code_simp
  then show ?thesis by (simp add: ecdf_values_def)
qed

text \<open>
  C4 fails for \<open>plot_ecdf\<close>. On a DataFrame of two rows and two columns the column
  \<open>a\<close> has two observations, and the plotted sequence has four points, starts at \<open>1/4\<close>
  and rises in steps of \<open>1/4\<close>: \<open>n\<close> is \<open>data.size\<close>, the number of cells of the whole
  DataFrame, not the number of observations of the column.
\<close>

theorem plot_ecdf_counts_cells:
  "plot_ecdf [(''a'', [Some 1, Some 2]), (''b'', [Some 3, Some 4])] ''a'' =
     Inr \<lparr>ecdf_x = [(''a'', [Some 1, Some 2]), (''b'', [Some 3, Some 4])],
          ecdf_y = [1 / 4, 1 / 2, 3 / 4, 1]\<rparr>
   \<and> length (dropna [Some 1, Some 2]) = 2
   \<and> ecdf_values (length (dropna [Some 1, Some 2])) = [1 / 2, 1]"
proof -
  let ?data = "[(''a'', [Some (1::real), Some 2]), (''b'', [Some 3, Some 4])]"
  have "[1..<3] = [1, 2 :: nat]" by code_simp
  then have two: "ecdf_values 2 = [1 / 2, 1]" by (simp add: ecdf_values_def)
  have col: "map_of ?data ''a'' = Some [Some 1, Some 2]" by simp
  have size: "df_size ?data = 4" by (simp add: df_size_def nrows_def)
  have len: "length (dropna [Some (1::real), Some 2]) = 2" by simp
  show ?thesis
    by (simp only: plot_ecdf_values [OF col] size len ecdf_values_4 two)
qed

section \<open>SHAP waterfall and decision plots\<close>

























end
